theory Spec2Isabelle
  imports Main
begin

section \<open>The SCP forwarder of ssh-mitm (ssh_proxy_server/forwarders/scp.py)\<close>

text \<open>
  The module relays an intercepted SCP command between the client-side channel
  (\<open>session.scp_channel\<close>) and the server-side channel (\<open>server_channel\<close>), closes the
  client-side channel with hand-built channel messages, and follows the SCP control lines
  with a small state machine.

  Conventions of the embedding:
  \<^item> Python \<open>bytes\<close> are lists of \<open>char\<close> (a \<open>char\<close> is one byte), Python \<open>str\<close> are lists
    of Unicode code points (\<open>nat\<close>), Python \<open>int\<close> is \<open>int\<close>;
  \<^item> a method \<open>m(self, x)\<close> that mutates \<open>self\<close> is a function \<open>m x self\<close> that returns
    the result together with the new \<open>self\<close>;
  \<^item> a raised exception is the left injection of a sum;
  \<^item> calls of \<open>logging\<close> have no effect on the modelled state and are left out;
  \<^item> what the module takes from elsewhere (paramiko's channel and transport, the parent
    class \<open>BaseForwarder\<close>) is modelled by its effect on the fields the module uses,
    with the exceptions it raises on the values the module passes, or is a parameter; a
    call of a parameter is taken to return normally.
\<close>

type_synonym bytes = "char list"
type_synonym str = "nat list"

datatype error = UnicodeDecodeError | ValueError | AttributeError | StructError

subsection \<open>Python built-ins used by the module\<close>

text \<open>The code points of an ASCII literal.\<close>

definition ascii :: "string \<Rightarrow> str" where
  "ascii s = map of_char s"

text \<open>
  \<open>bytes.decode('utf-8')\<close> with the default strict error handling: the well-formed byte
  sequences of the Unicode standard (no overlong forms, no surrogates, nothing above
  U+10FFFF); anything else raises \<open>UnicodeDecodeError\<close>, here \<open>None\<close>.
  The decoder reads one byte at a time; its first argument holds, inside a multi-byte
  sequence, the number of continuation bytes still due, the bits collected so far and
  the range allowed for the next byte.
\<close>

fun utf8_run :: "(nat \<times> nat \<times> nat \<times> nat) option \<Rightarrow> nat list \<Rightarrow> str option" where
  "utf8_run None [] = Some []"
| "utf8_run (Some p) [] = None"
| "utf8_run None (b # bs) =
     (if b < 0x80 then map_option ((#) b) (utf8_run None bs)
      else if 0xC2 \<le> b \<and> b \<le> 0xDF then utf8_run (Some (1, b - 0xC0, 0x80, 0xBF)) bs
      else if b = 0xE0 then utf8_run (Some (2, 0, 0xA0, 0xBF)) bs
      else if b = 0xED then utf8_run (Some (2, 0xD, 0x80, 0x9F)) bs
      else if 0xE1 \<le> b \<and> b \<le> 0xEF then utf8_run (Some (2, b - 0xE0, 0x80, 0xBF)) bs
      else if b = 0xF0 then utf8_run (Some (3, 0, 0x90, 0xBF)) bs
      else if 0xF1 \<le> b \<and> b \<le> 0xF3 then utf8_run (Some (3, b - 0xF0, 0x80, 0xBF)) bs
      else if b = 0xF4 then utf8_run (Some (3, 4, 0x80, 0x8F)) bs
      else None)"
| "utf8_run (Some (k, acc, lo, hi)) (b # bs) =
     (if lo \<le> b \<and> b \<le> hi then
        (if k = 1 then map_option ((#) (acc * 64 + (b - 0x80))) (utf8_run None bs)
         else utf8_run (Some (k - 1, acc * 64 + (b - 0x80), 0x80, 0xBF)) bs)
      else None)"

definition utf8_decode :: "bytes \<Rightarrow> str option" where
  "utf8_decode bs = utf8_run None (map of_char bs)"

text \<open>\<open>bytes.startswith\<close> and the test \<open>bytes.find(sub) != -1\<close>.\<close>

definition startswith :: "'a list \<Rightarrow> 'a list \<Rightarrow> bool" where
  "startswith s pre = (take (length pre) s = pre)"

fun contains :: "'a list \<Rightarrow> 'a list \<Rightarrow> bool" where
  "contains [] sub = (sub = [])"
| "contains (x # xs) sub = (startswith (x # xs) sub \<or> contains xs sub)"

text \<open>
  \<open>int(s)\<close> for a string of ASCII decimal digits. The value is unbounded, but the
  interpreter refuses a string of more digits than its limit, 4300 unless the run-time is
  set otherwise, and raises \<open>ValueError\<close>; leading zeros count as digits.
\<close>

definition digits_value :: "str \<Rightarrow> int" where
  "digits_value ds = foldl (\<lambda>a d. 10 * a + (int d - 48)) 0 ds"

definition int_max_str_digits :: nat where
  "int_max_str_digits = 4300"

definition py_int :: "str \<Rightarrow> error + int" where
  "py_int ds = (if int_max_str_digits < length ds then Inl ValueError
                else Inr (digits_value ds))"

subsection \<open>The regular expression of a control line\<close>

text \<open>
  The character classes of the pattern, on code points. In a \<open>str\<close> pattern \<open>\s\<close> is the
  Unicode white space of \<open>str.isspace\<close>; \<open>[0-9]\<close> and \<open>[0-7]\<close> are the ASCII ranges; \<open>.\<close> is
  every character but the newline.
\<close>

definition is_space :: "nat \<Rightarrow> bool" where
  "is_space c = ((0x09 \<le> c \<and> c \<le> 0x0D) \<or> (0x1C \<le> c \<and> c \<le> 0x20) \<or> c = 0x85 \<or> c = 0xA0
     \<or> c = 0x1680 \<or> (0x2000 \<le> c \<and> c \<le> 0x200A) \<or> c = 0x2028 \<or> c = 0x2029
     \<or> c = 0x202F \<or> c = 0x205F \<or> c = 0x3000)"

definition is_digit :: "nat \<Rightarrow> bool" where
  "is_digit c = (0x30 \<le> c \<and> c \<le> 0x39)"

definition is_octal :: "nat \<Rightarrow> bool" where
  "is_octal c = (0x30 \<le> c \<and> c \<le> 0x37)"

definition newline :: nat where
  "newline = 0x0A"

text \<open>
  \<open>re.match(r"([CD])([0-7]{4})\s([0-9]+)\s(.*)\n", command)\<close>: the match is anchored at
  the start of the text only. The result is the four groups. The two greedy parts need no
  backtracking: a digit is never white space, so \<open>[0-9]+\<close> is the whole run of digits, and
  \<open>.\<close> never is a newline, so \<open>.*\<close> is everything before the next newline.
\<close>

definition match_c_command :: "str \<Rightarrow> (str \<times> str \<times> str \<times> str) option" where
  "match_c_command command =
     (case command of
        [] \<Rightarrow> None
      | c # r1 \<Rightarrow>
          if c \<noteq> 0x43 \<and> c \<noteq> 0x44 then None
          else let mode = take 4 r1; r2 = drop 4 r1 in
            if length mode \<noteq> 4 \<or> \<not> list_all is_octal mode then None
            else (case r2 of
                [] \<Rightarrow> None
              | s1 # r3 \<Rightarrow>
                  if \<not> is_space s1 then None
                  else let digits = takeWhile is_digit r3; r4 = dropWhile is_digit r3 in
                    if digits = [] then None
                    else (case r4 of
                        [] \<Rightarrow> None
                      | s2 # r5 \<Rightarrow>
                          if \<not> is_space s2 then None
                          else let name = takeWhile (\<lambda>x. x \<noteq> newline) r5;
                                   r6 = dropWhile (\<lambda>x. x \<noteq> newline) r5 in
                            if r6 = [] then None
                            else Some ([c], mode, digits, name))))"

subsection \<open>SCPForwarder: the state machine over the control lines\<close>

text \<open>The fields that \<open>SCPForwarder.__init__\<close> adds to the forwarder.\<close>

record scp_forwarder =
  await_response :: bool
  bytes_remaining :: int
  bytes_to_write :: int
  file_command :: "str option"
  file_mode :: "str option"
  file_size :: int
  file_name :: str
  got_c_command :: bool

definition init :: scp_forwarder where
  "init = \<lparr> await_response = False, bytes_remaining = 0, bytes_to_write = 0,
            file_command = None, file_mode = None, file_size = 0, file_name = [],
            got_c_command = False \<rparr>"

text \<open>
  \<open>handle_command\<close>. The pending-command flag is cleared first; decoding may raise; when
  the line is no \<open>C\<close> or \<open>D\<close> record the two further matches only feed the log. On a
  record the flag, the command and the mode are assigned before the size is converted, so
  a size that \<open>int\<close> refuses leaves these three assigned and the rest as it was.
\<close>

definition handle_command :: "bytes \<Rightarrow> scp_forwarder \<Rightarrow> (error + bytes) \<times> scp_forwarder" where
  "handle_command traffic self =
     (let self1 = self\<lparr>got_c_command := False\<rparr> in
      case utf8_decode traffic of
        None \<Rightarrow> (Inl UnicodeDecodeError, self1)
      | Some command \<Rightarrow>
          (case match_c_command command of
             None \<Rightarrow> (Inr traffic, self1)
           | Some (g1, g2, g3, g4) \<Rightarrow>
               (let self2 = self1\<lparr>got_c_command := True,
                                   file_command := Some g1,
                                   file_mode := Some g2\<rparr>
                in case py_int g3 of
                     Inl e \<Rightarrow> (Inl e, self2)
                   | Inr n \<Rightarrow>
                       (Inr traffic,
                        self2\<lparr>file_size := n,
                              bytes_remaining := n,
                              file_name := g4,
                              await_response := True\<rparr>))))"

definition process_data :: "bytes \<Rightarrow> scp_forwarder \<Rightarrow> (error + bytes) \<times> scp_forwarder" where
  "process_data traffic self = (Inr traffic, self)"

definition process_response :: "bytes \<Rightarrow> scp_forwarder \<Rightarrow> (error + bytes) \<times> scp_forwarder" where
  "process_response traffic self = (Inr traffic, self)"

text \<open>
  \<open>handle_traffic\<close>. The chain of tests that picks the hook is \<open>dispatch\<close>; the flag
  \<open>isclient\<close> is a parameter of the method that its body never reads.
\<close>

datatype route = PassThrough | Response | Command | Data

definition dispatch :: "bytes \<Rightarrow> scp_forwarder \<Rightarrow> route" where
  "dispatch scp_command self =
     (if \<not> startswith scp_command ''scp'' then PassThrough
      else if await_response self then Response
      else if bytes_remaining self = 0 \<and> \<not> got_c_command self then Command
      else Data)"

definition handle_traffic ::
  "bytes \<Rightarrow> bytes \<Rightarrow> bool \<Rightarrow> scp_forwarder \<Rightarrow> (error + bytes) \<times> scp_forwarder" where
  "handle_traffic scp_command traffic isclient self =
     (case dispatch scp_command self of
        PassThrough \<Rightarrow> (Inr traffic, self)
      | Response \<Rightarrow> process_response traffic (self\<lparr>await_response := False\<rparr>)
      | Command \<Rightarrow> handle_command traffic self
      | Data \<Rightarrow> process_data traffic (self\<lparr>got_c_command := False\<rparr>))"

text \<open>A run of \<open>handle_traffic\<close> over successive chunks, each with its direction flag.\<close>

fun feed :: "bytes \<Rightarrow> (bytes \<times> bool) list \<Rightarrow> scp_forwarder \<Rightarrow> scp_forwarder" where
  "feed scp_command [] self = self"
| "feed scp_command ((traffic, isclient) # rest) self =
     feed scp_command rest (snd (handle_traffic scp_command traffic isclient self))"

text \<open>
  The same run, keeping for every chunk the hook it was routed to and the returned value.
\<close>

fun feed_trace ::
  "bytes \<Rightarrow> (bytes \<times> bool) list \<Rightarrow> scp_forwarder \<Rightarrow> (route \<times> (error + bytes)) list" where
  "feed_trace scp_command [] self = []"
| "feed_trace scp_command ((traffic, isclient) # rest) self =
     (dispatch scp_command self, fst (handle_traffic scp_command traffic isclient self))
       # feed_trace scp_command rest (snd (handle_traffic scp_command traffic isclient self))"

text \<open>The states the forwarder can be in after any number of \<open>handle_traffic\<close> calls.\<close>

inductive reachable :: "bytes \<Rightarrow> scp_forwarder \<Rightarrow> bool" for scp_command :: bytes where
  reachable_init: "reachable scp_command init"
| reachable_step: "reachable scp_command self \<Longrightarrow>
     reachable scp_command (snd (handle_traffic scp_command traffic isclient self))"

text \<open>
  The three conditions of the state machine. A chunk is parsed as a control line exactly
  when \<open>handle_traffic\<close> reaches \<open>handle_command\<close>; the other two are read off the flags.
\<close>

definition awaiting_control_line :: "scp_forwarder \<Rightarrow> bool" where
  "awaiting_control_line self =
     (\<not> await_response self \<and> bytes_remaining self = 0 \<and> \<not> got_c_command self)"

definition awaiting_response_byte :: "scp_forwarder \<Rightarrow> bool" where
  "awaiting_response_byte self = await_response self"

definition streaming_payload :: "scp_forwarder \<Rightarrow> bool" where
  "streaming_payload self = (bytes_remaining self \<noteq> 0 \<or> got_c_command self)"

definition at_most_one :: "bool \<Rightarrow> bool \<Rightarrow> bool \<Rightarrow> bool" where
  "at_most_one a b c = (\<not> (a \<and> b) \<and> \<not> (a \<and> c) \<and> \<not> (b \<and> c))"

text \<open>
  The grammar of a \<open>C\<close> or \<open>D\<close> record, stated on the decoded text: the letter, four
  octal digits, one white-space character, a non-empty run of decimal digits, one
  white-space character, a name without newline, a newline; anything may follow.
\<close>

definition cd_line :: "str \<Rightarrow> bool" where
  "cd_line command =
     (\<exists>c mode s1 digits s2 name rest.
        command = c # mode @ s1 # digits @ s2 # name @ newline # rest
        \<and> (c = 0x43 \<or> c = 0x44) \<and> length mode = 4 \<and> list_all is_octal mode
        \<and> is_space s1 \<and> digits \<noteq> [] \<and> list_all is_digit digits \<and> is_space s2
        \<and> newline \<notin> set name)"

text \<open>
  The size that \<open>handle_command\<close> reads from a chunk, when the chunk is a record and its
  size is converted.
\<close>

definition parsed_size :: "bytes \<Rightarrow> int option" where
  "parsed_size traffic =
     (case utf8_decode traffic of
        None \<Rightarrow> None
      | Some command \<Rightarrow>
          (case match_c_command command of
             None \<Rightarrow> None
           | Some (g1, g2, g3, g4) \<Rightarrow>
               (case py_int g3 of Inl e \<Rightarrow> None | Inr n \<Rightarrow> Some n)))"

subsection \<open>SCPBaseForwarder.sendall\<close>

text \<open>The slice \<open>data[sent:]\<close>; a negative index counts from the end.\<close>

definition slice_from :: "'a list \<Rightarrow> int \<Rightarrow> 'a list" where
  "slice_from data sent =
     (if 0 \<le> sent then drop (nat sent) data
      else drop (nat (int (length data) + sent)) data)"

text \<open>
  The send primitive is any callable from bytes to \<open>int\<close> with an effect on the world
  \<open>'w\<close> it writes to. The \<open>while\<close> loop may run forever (a primitive can report more than
  it was given), so the loop is a partial function and not returning is \<open>None\<close>.
\<close>

partial_function (option) sendall_loop ::
  "(bytes \<Rightarrow> 'w \<Rightarrow> int \<times> 'w) \<Rightarrow> bytes \<Rightarrow> int \<Rightarrow> 'w \<Rightarrow> (int \<times> 'w) option" where
  "sendall_loop sendfunc data sent w =
     (if sent \<noteq> int (length data) then
        (case sendfunc (slice_from data sent) w of
           (newsent, w') \<Rightarrow>
             if newsent = 0 then Some (0, w')
             else sendall_loop sendfunc data (sent + newsent) w')
      else Some (sent, w))"

definition sendall ::
  "('w \<Rightarrow> bool) \<Rightarrow> bytes \<Rightarrow> (bytes \<Rightarrow> 'w \<Rightarrow> int \<times> 'w) \<Rightarrow> 'w \<Rightarrow> (int \<times> 'w) option" where
  "sendall channel_exit_status_ready data sendfunc w =
     (if data = [] then Some (0, w)
      else if channel_exit_status_ready w then Some (0, w)
      else sendall_loop sendfunc data 0 w)"

text \<open>
  A recording wrapper for a send primitive, as a test double would be: beside the
  primitive's own world it keeps the list of calls, each with the buffer passed and the
  count reported.
\<close>

definition recording ::
  "(bytes \<Rightarrow> 'w \<Rightarrow> int \<times> 'w) \<Rightarrow> bytes \<Rightarrow> 'w \<times> (bytes \<times> int) list
     \<Rightarrow> int \<times> ('w \<times> (bytes \<times> int) list)" where
  "recording sendfunc r = (\<lambda>(w, calls).
     case sendfunc r w of (n, w') \<Rightarrow> (n, (w', calls @ [(r, n)])))"

text \<open>
  A list of recorded calls sends \<open>r\<close> piece by piece: the first call gets \<open>r\<close>, every
  call reports a positive count within its buffer, the next call gets what the previous
  one left, and nothing is left after the last.
\<close>

fun sends_all :: "(bytes \<times> int) list \<Rightarrow> bytes \<Rightarrow> bool" where
  "sends_all [] r = (r = [])"
| "sends_all ((b, n) # calls) r =
     (b = r \<and> 0 < n \<and> n \<le> int (length r) \<and> sends_all calls (drop (nat n) r))"

text \<open>
  The calls that the loop makes from offset \<open>k\<close> in world \<open>w\<close>, each in the world the
  previous one left: \<open>calls_ok\<close> says that every one of them reports a positive count
  within the buffer it was given. Nothing is said of calls the loop does not make.
\<close>

function calls_ok :: "(bytes \<Rightarrow> 'w \<Rightarrow> int \<times> 'w) \<Rightarrow> bytes \<Rightarrow> nat \<Rightarrow> 'w \<Rightarrow> bool" where
  "calls_ok sendfunc data k w =
     (if length data \<le> k then True
      else (case sendfunc (drop k data) w of
              (n, w') \<Rightarrow>
                if 0 < n \<and> n \<le> int (length data - k)
                then calls_ok sendfunc data (k + nat n) w'
                else False))"
  by pat_completeness auto
termination
  by (relation "measure (\<lambda>(sendfunc, data, k, w). length data - k)") auto

declare calls_ok.simps [simp del]

text \<open>A primitive that accepts at most four bytes per call.\<close>

definition send4 :: "bytes \<Rightarrow> unit \<Rightarrow> int \<times> unit" where
  "send4 r w = (int (min 4 (length r)), w)"

text \<open>
  A primitive with a state, the number of calls so far: it accepts at most four bytes in
  each of its first three calls and reports zero from then on.
\<close>

definition send4_thrice :: "bytes \<Rightarrow> nat \<Rightarrow> int \<times> nat" where
  "send4_thrice r w = (if w < 3 then int (min 4 (length r)) else 0, Suc w)"

text \<open>A callable that reports four bytes whatever it is given.\<close>

definition reports4 :: "bytes \<Rightarrow> unit \<Rightarrow> int \<times> unit" where
  "reports4 r w = (4, w)"

subsection \<open>The channel and its transport (paramiko)\<close>

text \<open>
  A message is the list of the fields added to it (\<open>add_byte\<close>, \<open>add_int\<close>,
  \<open>add_string\<close>, \<open>add_boolean\<close>). The message numbers are those of
  \<open>paramiko.common\<close>.
\<close>

datatype field = AddByte nat | AddInt int | AddString string | AddBoolean bool

type_synonym message = "field list"

definition cMSG_CHANNEL_EOF :: nat where
  "cMSG_CHANNEL_EOF = 96"

definition cMSG_CHANNEL_CLOSE :: nat where
  "cMSG_CHANNEL_CLOSE = 97"

definition cMSG_CHANNEL_REQUEST :: nat where
  "cMSG_CHANNEL_REQUEST = 98"

text \<open>
  Of the transport: the messages handed to \<open>_send_user_message\<close>, oldest first, and the
  ids in its channel table. Of the channel: the fields the module reads, the two inbound
  buffers and the exit status with the event that tells it has arrived.
\<close>

record transport =
  sent_messages :: "message list"
  channels :: "int set"

record channel =
  chanid :: int
  remote_chanid :: int
  closed :: bool
  eof_received :: bool
  status_event :: bool
  exit_status :: int
  in_buffer :: bytes
  in_stderr_buffer :: bytes
  transport :: transport

definition send_user_message :: "message \<Rightarrow> channel \<Rightarrow> channel" where
  "send_user_message m c =
     c\<lparr>transport := (transport c)\<lparr>sent_messages := sent_messages (transport c) @ [m]\<rparr>\<rparr>"

text \<open>
  \<open>Channel._unlink\<close>: nothing on a closed channel; otherwise the channel is marked closed
  (which also sets the status event) and its id is deleted from the transport's table.
\<close>

definition unlink :: "channel \<Rightarrow> channel" where
  "unlink c =
     (if closed c then c
      else c\<lparr>closed := True, status_event := True,
             transport := (transport c)\<lparr>channels := channels (transport c) - {chanid c}\<rparr>\<rparr>)"

definition exit_status_ready :: "channel \<Rightarrow> bool" where
  "exit_status_ready c = (closed c \<or> status_event c)"

text \<open>\<open>recv_exit_status\<close> waits for the status event: without it the call never returns.\<close>

definition recv_exit_status :: "channel \<Rightarrow> int option" where
  "recv_exit_status c = (if status_event c then Some (exit_status c) else None)"

definition exit_status_message :: "channel \<Rightarrow> int \<Rightarrow> message" where
  "exit_status_message c status =
     [AddByte cMSG_CHANNEL_REQUEST, AddInt (remote_chanid c), AddString ''exit-status'',
      AddBoolean False, AddInt status]"

text \<open>
  \<open>send_exit_status\<close> packs the status with \<open>add_int\<close>, an unsigned field of 32 bits:
  a status outside the range raises \<open>struct.error\<close> and no message is sent. (The remote
  channel id was itself read from such a field.)
\<close>

definition send_exit_status :: "int \<Rightarrow> channel \<Rightarrow> error + channel" where
  "send_exit_status status c =
     (if 0 \<le> status \<and> status < 2 ^ 32
      then Inr (send_user_message (exit_status_message c status) c)
      else Inl StructError)"

definition recv_ready :: "channel \<Rightarrow> bool" where
  "recv_ready c = (in_buffer c \<noteq> [])"

definition recv_stderr_ready :: "channel \<Rightarrow> bool" where
  "recv_stderr_ready c = (in_stderr_buffer c \<noteq> [])"

subsection \<open>SCPBaseForwarder.close_session\<close>

definition eof_message :: "channel \<Rightarrow> message" where
  "eof_message c = [AddByte cMSG_CHANNEL_EOF, AddInt (remote_chanid c)]"

definition eow_message :: "channel \<Rightarrow> message" where
  "eow_message c =
     [AddByte cMSG_CHANNEL_REQUEST, AddInt (remote_chanid c), AddString ''eow@openssh.com'',
      AddBoolean False]"

definition close_message :: "channel \<Rightarrow> message" where
  "close_message c = [AddByte cMSG_CHANNEL_CLOSE, AddInt (remote_chanid c)]"

text \<open>
  The first argument is \<open>BaseForwarder.close_session\<close>, the method of the parent class
  reached through \<open>super()\<close>; the parent class is not part of the module.
\<close>

definition close_session :: "(channel \<Rightarrow> channel) \<Rightarrow> channel \<Rightarrow> channel" where
  "close_session base_close_session c =
     (if closed c then c
      else
        let c1 = (if \<not> eof_received c then
                    (let c0 = send_user_message (eof_message c) c
                     in send_user_message (eow_message c0) c0)
                  else c);
            c2 = send_user_message (close_message c1) c1;
            c3 = unlink c2
        in base_close_session c3)"

subsection \<open>SCPBaseForwarder.forward\<close>

text \<open>
  The two hooks as \<open>SCPBaseForwarder\<close> defines them; \<open>SCPForwarder\<close> overrides the
  first with its \<open>handle_traffic\<close> above.
\<close>

definition base_handle_traffic :: "bytes \<Rightarrow> bool \<Rightarrow> 'f \<Rightarrow> (error + bytes) \<times> 'f" where
  "base_handle_traffic traffic isclient self = (Inr traffic, self)"

definition handle_error :: "bytes \<Rightarrow> 'f \<Rightarrow> (error + bytes) \<times> 'f" where
  "handle_error traffic self = (Inr traffic, self)"

text \<open>
  The session with the forwarder's own channel and its instance state \<open>forwarder\<close> (of the
  subclass that provides the hooks). The agent of the session is only read for a log
  message and is left out.
\<close>

record 'f world =
  ssh_pty_kwargs :: "(string \<times> string) list option"
  scp_command :: bytes
  scp_channel :: "channel option"
  running :: bool
  server_channel :: channel
  forwarder :: 'f

text \<open>
  What \<open>forward\<close> uses and the module does not define: the buffer length and the two
  methods \<open>_closed\<close> and \<open>close_session\<close> of the parent class, the channel's methods that
  read from and write to the peer, the two hooks as the instance's class defines them, and
  what the rest of the system does to the world while the forwarder sleeps.
\<close>

record 'f externals =
  BUF_LEN :: nat
  is_closed :: "channel \<Rightarrow> bool"
  base_close_session :: "channel \<Rightarrow> channel"
  get_pty :: "(string \<times> string) list \<Rightarrow> channel \<Rightarrow> channel"
  exec_command :: "str \<Rightarrow> channel \<Rightarrow> channel"
  recv :: "nat \<Rightarrow> channel \<Rightarrow> bytes \<times> channel"
  recv_stderr :: "nat \<Rightarrow> channel \<Rightarrow> bytes \<times> channel"
  send :: "bytes \<Rightarrow> channel \<Rightarrow> int \<times> channel"
  send_stderr :: "bytes \<Rightarrow> channel \<Rightarrow> int \<times> channel"
  channel_close :: "channel \<Rightarrow> channel"
  handle_traffic_hook :: "bytes \<Rightarrow> bool \<Rightarrow> 'f \<Rightarrow> (error + bytes) \<times> 'f"
  handle_error_hook :: "bytes \<Rightarrow> 'f \<Rightarrow> (error + bytes) \<times> 'f"
  sleep :: "'f world \<Rightarrow> 'f world"

text \<open>
  A step of \<open>forward\<close> either never returns (\<open>None\<close>), raises, or returns a value.
  \<open>and_then\<close> sequences two steps; \<open>with_scp\<close> is an access to a method of
  \<open>session.scp_channel\<close>, which raises on \<open>None\<close>.
\<close>

definition and_then ::
  "(error + 'a) option \<Rightarrow> ('a \<Rightarrow> (error + 'b) option) \<Rightarrow> (error + 'b) option" where
  "and_then m k = (case m of None \<Rightarrow> None | Some (Inl e) \<Rightarrow> Some (Inl e) | Some (Inr x) \<Rightarrow> k x)"

definition with_scp :: "'f world \<Rightarrow> (channel \<Rightarrow> (error + 'a) option) \<Rightarrow> (error + 'a) option" where
  "with_scp w k = (case scp_channel w of None \<Rightarrow> Some (Inl AttributeError) | Some c \<Rightarrow> k c)"

text \<open>Lines 55 to 58: primary data of the client side goes to the server side.\<close>

definition relay_client_data :: "'f externals \<Rightarrow> 'f world \<Rightarrow> (error + 'f world) option" where
  "relay_client_data X w =
     with_scp w (\<lambda>c.
       if recv_ready c then
         (case recv X (BUF_LEN X) c of
            (buf, c') \<Rightarrow>
              (case handle_traffic_hook X buf True (forwarder w) of
                 (Inl e, f') \<Rightarrow> Some (Inl e)
               | (Inr buf', f') \<Rightarrow>
                   (case sendall exit_status_ready buf' (send X) (server_channel w) of
                      None \<Rightarrow> None
                    | Some (n, s') \<Rightarrow>
                        Some (Inr (w\<lparr>scp_channel := Some c', forwarder := f',
                                     server_channel := s'\<rparr>)))))
       else Some (Inr w))"

text \<open>Lines 59 to 62: primary data of the server side goes to the client side.\<close>

definition relay_server_data :: "'f externals \<Rightarrow> 'f world \<Rightarrow> (error + 'f world) option" where
  "relay_server_data X w =
     (if recv_ready (server_channel w) then
        (case recv X (BUF_LEN X) (server_channel w) of
           (buf, s') \<Rightarrow>
             (case handle_traffic_hook X buf False (forwarder w) of
                (Inl e, f') \<Rightarrow> Some (Inl e)
              | (Inr buf', f') \<Rightarrow>
                  with_scp w (\<lambda>c.
                    case sendall exit_status_ready buf' (send X) c of
                      None \<Rightarrow> None
                    | Some (n, c') \<Rightarrow>
                        Some (Inr (w\<lparr>server_channel := s', forwarder := f',
                                     scp_channel := Some c'\<rparr>)))))
      else Some (Inr w))"

text \<open>Lines 63 to 66: extended data of the client side goes to the server side.\<close>

definition relay_client_stderr :: "'f externals \<Rightarrow> 'f world \<Rightarrow> (error + 'f world) option" where
  "relay_client_stderr X w =
     with_scp w (\<lambda>c.
       if recv_stderr_ready c then
         (case recv_stderr X (BUF_LEN X) c of
            (buf, c') \<Rightarrow>
              (case handle_error_hook X buf (forwarder w) of
                 (Inl e, f') \<Rightarrow> Some (Inl e)
               | (Inr buf', f') \<Rightarrow>
                   (case sendall exit_status_ready buf' (send_stderr X) (server_channel w) of
                      None \<Rightarrow> None
                    | Some (n, s') \<Rightarrow>
                        Some (Inr (w\<lparr>scp_channel := Some c', forwarder := f',
                                     server_channel := s'\<rparr>)))))
       else Some (Inr w))"

text \<open>Lines 67 to 70: extended data of the server side goes to the client side.\<close>

definition relay_server_stderr :: "'f externals \<Rightarrow> 'f world \<Rightarrow> (error + 'f world) option" where
  "relay_server_stderr X w =
     (if recv_stderr_ready (server_channel w) then
        (case recv_stderr X (BUF_LEN X) (server_channel w) of
           (buf, s') \<Rightarrow>
             (case handle_error_hook X buf (forwarder w) of
                (Inl e, f') \<Rightarrow> Some (Inl e)
              | (Inr buf', f') \<Rightarrow>
                  with_scp w (\<lambda>c.
                    case sendall exit_status_ready buf' (send_stderr X) c of
                      None \<Rightarrow> None
                    | Some (n, c') \<Rightarrow>
                        Some (Inr (w\<lparr>server_channel := s', forwarder := f',
                                     scp_channel := Some c'\<rparr>)))))
      else Some (Inr w))"

definition relay :: "'f externals \<Rightarrow> 'f world \<Rightarrow> (error + 'f world) option" where
  "relay X w =
     and_then (relay_client_data X w) (\<lambda>w1.
     and_then (relay_server_data X w1) (\<lambda>w2.
     and_then (relay_client_stderr X w2) (\<lambda>w3.
     relay_server_stderr X w3)))"

text \<open>Lines 72 to 95: the tests that end the loop.\<close>

datatype outcome = Break | Continue

definition exit_checks :: "'f externals \<Rightarrow> 'f world \<Rightarrow> (error + outcome \<times> 'f world) option" where
  "exit_checks X w =
     (if exit_status_ready (server_channel w) then
        (case recv_exit_status (server_channel w) of
           None \<Rightarrow> None
         | Some status \<Rightarrow>
             with_scp w (\<lambda>c.
               case send_exit_status status c of
                 Inl e \<Rightarrow> Some (Inl e)
               | Inr c' \<Rightarrow>
                   Some (Inr (Break,
                     w\<lparr>scp_channel :=
                         Some (close_session (base_close_session X) c')\<rparr>))))
      else
        with_scp w (\<lambda>c.
          if exit_status_ready c then
            (case recv_exit_status c of
               None \<Rightarrow> None
             | Some status \<Rightarrow>
                 Some (Inr (Break,
                   w\<lparr>scp_channel := Some (close_session (base_close_session X) c)\<rparr>)))
          else if is_closed X c then
            Some (Inr (Break,
              w\<lparr>server_channel := channel_close X (server_channel w),
                scp_channel := Some (close_session (base_close_session X) c)\<rparr>))
          else if is_closed X (server_channel w) then
            Some (Inr (Break,
              w\<lparr>scp_channel := Some (close_session (base_close_session X) c)\<rparr>))
          else Some (Inr (Continue, w))))"

text \<open>Lines 52 to 97: one pass through the body of the loop.\<close>

definition loop_body :: "'f externals \<Rightarrow> 'f world \<Rightarrow> (error + outcome \<times> 'f world) option" where
  "loop_body X w =
     (case scp_channel w of
        None \<Rightarrow> Some (Inl ValueError)
      | Some c \<Rightarrow> and_then (relay X w) (exit_checks X))"

partial_function (option) forward_loop ::
  "'f externals \<Rightarrow> 'f world \<Rightarrow> (error + 'f world) option" where
  "forward_loop X w =
     (if running w then
        (case loop_body X w of
           None \<Rightarrow> None
         | Some (Inl e) \<Rightarrow> Some (Inl e)
         | Some (Inr (Break, w')) \<Rightarrow> Some (Inr w')
         | Some (Inr (Continue, w')) \<Rightarrow> forward_loop X (sleep X w'))
      else Some (Inr w))"

text \<open>Lines 47 and 48: the wait for the server-side channel to close.\<close>

partial_function (option) wait_closed :: "'f externals \<Rightarrow> 'f world \<Rightarrow> 'f world option" where
  "wait_closed X w =
     (if \<not> is_closed X (server_channel w) then wait_closed X (sleep X w) else Some w)"

definition forward :: "'f externals \<Rightarrow> 'f world \<Rightarrow> (error + 'f world) option" where
  "forward X w =
     (let w1 = (case ssh_pty_kwargs w of
                  None \<Rightarrow> w
                | Some kwargs \<Rightarrow> w\<lparr>server_channel := get_pty X kwargs (server_channel w)\<rparr>)
      in case utf8_decode (scp_command w1) of
           None \<Rightarrow> Some (Inl UnicodeDecodeError)
         | Some command \<Rightarrow>
             (let w2 = w1\<lparr>server_channel := exec_command X command (server_channel w1)\<rparr>
              in if startswith command (ascii ''scp'')
                    \<and> \<not> contains (scp_command w2) '' -t '' \<and> \<not> contains (scp_command w2) '' -f ''
                 then (case wait_closed X w2 of
                         None \<Rightarrow> None
                       | Some w3 \<Rightarrow> forward_loop X w3)
                 else forward_loop X w2))"

subsection \<open>A small world for the examples\<close>

text \<open>
  An open channel with remote id 7 on a transport with two channels, collaborators that
  do as little as possible, and a session for the command \<open>scp -t /tmp\<close>.
\<close>

definition example_transport :: transport where
  "example_transport = \<lparr> sent_messages = [], channels = {0, 1} \<rparr>"

definition open_channel :: channel where
  "open_channel = \<lparr> chanid = 1, remote_chanid = 7, closed = False, eof_received = False,
     status_event = False, exit_status = - 1, in_buffer = [], in_stderr_buffer = [],
     transport = example_transport \<rparr>"

definition example_externals :: "scp_forwarder externals" where
  "example_externals = \<lparr> BUF_LEN = 65536, is_closed = closed, base_close_session = (\<lambda>c. c),
     get_pty = (\<lambda>kwargs c. c), exec_command = (\<lambda>command c. c),
     recv = (\<lambda>n c. (take n (in_buffer c), c\<lparr>in_buffer := drop n (in_buffer c)\<rparr>)),
     recv_stderr = (\<lambda>n c. (take n (in_stderr_buffer c),
                             c\<lparr>in_stderr_buffer := drop n (in_stderr_buffer c)\<rparr>)),
     send = (\<lambda>r c. (int (length r), c)), send_stderr = (\<lambda>r c. (int (length r), c)),
     channel_close = (\<lambda>c. c\<lparr>closed := True, status_event := True\<rparr>),
     handle_traffic_hook = handle_traffic ''scp -t /tmp'',
     handle_error_hook = handle_error,
     sleep = (\<lambda>w. w) \<rparr>"

definition example_world :: "channel \<Rightarrow> channel \<Rightarrow> scp_forwarder world" where
  "example_world server client = \<lparr> ssh_pty_kwargs = None, scp_command = ''scp -t /tmp'',
     scp_channel = Some client, running = True, server_channel = server, forwarder = init \<rparr>"

section \<open>Properties\<close>

lemma init_bytes_remaining: "bytes_remaining init = 0"
  by (simp add: init_def)

subsection \<open>Control lines\<close>

lemma space_not_digit: "is_space c \<Longrightarrow> \<not> is_digit c"
  by (auto simp: is_space_def is_digit_def)

lemma takeWhile_run: "list_all P xs \<Longrightarrow> \<not> P y \<Longrightarrow> takeWhile P (xs @ y # ys) = xs"
  by (induction xs) auto

lemma dropWhile_run: "list_all P xs \<Longrightarrow> \<not> P y \<Longrightarrow> dropWhile P (xs @ y # ys) = y # ys"
  by (induction xs) auto

lemma name_run: "newline \<notin> set name \<Longrightarrow> list_all (\<lambda>x. x \<noteq> newline) name"
  by (induction name) auto

lemma match_c_command_grammar:
  assumes "c = 0x43 \<or> c = 0x44" and "length mode = 4" and "list_all is_octal mode"
    and "is_space s1" and "digits \<noteq> []" and "list_all is_digit digits" and "is_space s2"
    and "newline \<notin> set name"
  shows "match_c_command (c # mode @ s1 # digits @ s2 # name @ newline # rest)
           = Some ([c], mode, digits, name)"
proof -
  have d: "takeWhile is_digit (digits @ s2 # name @ newline # rest) = digits"
    "dropWhile is_digit (digits @ s2 # name @ newline # rest) = s2 # name @ newline # rest"
    using assms by (simp_all add: takeWhile_run dropWhile_run space_not_digit)
  have n: "takeWhile (\<lambda>x. x \<noteq> newline) (name @ newline # rest) = name"
    "dropWhile (\<lambda>x. x \<noteq> newline) (name @ newline # rest) = newline # rest"
    using assms by (simp_all add: takeWhile_run dropWhile_run name_run)
  show ?thesis
    using assms d n by (auto simp: match_c_command_def Let_def)
qed

lemma utf8_run_ascii: "list_all (\<lambda>b. b < 0x80) bs \<Longrightarrow> utf8_run None bs = Some bs"
  by (induction bs) simp_all

lemma utf8_decode_ascii:
  "list_all (\<lambda>c. of_char c < (0x80::nat)) bs \<Longrightarrow> utf8_decode bs = Some (ascii bs)"
  using utf8_run_ascii [of "map of_char bs"]
  by (simp add: utf8_decode_def ascii_def list_all_iff)

text \<open>
  Claim C1, as stated, fails at a record whose size has 4301 digits: the chunk matches the
  grammar, \<open>int\<close> refuses the size, and \<open>handle_command\<close> raises \<open>ValueError\<close> with the flag,
  the command and the mode assigned and nothing else.
\<close>

theorem handle_command_cd_record_counterexample:
  "utf8_decode (''C0644 '' @ replicate 4301 (CHR ''1'') @ '' x'' @ [CHR 0x0A])
     = Some (ascii (''C0644 '' @ replicate 4301 (CHR ''1'') @ '' x'' @ [CHR 0x0A]))
   \<and> match_c_command (ascii (''C0644 '' @ replicate 4301 (CHR ''1'') @ '' x'' @ [CHR 0x0A]))
       = Some (ascii ''C'', ascii ''0644'', replicate 4301 0x31, ascii ''x'')
   \<and> handle_command (''C0644 '' @ replicate 4301 (CHR ''1'') @ '' x'' @ [CHR 0x0A]) init
       = (Inl ValueError,
          init\<lparr>got_c_command := True, file_command := Some (ascii ''C''),
               file_mode := Some (ascii ''0644'')\<rparr>)"
proof -
  let ?big = "''C0644 '' @ replicate 4301 (CHR ''1'') @ '' x'' @ [CHR 0x0A]"
  have dec: "utf8_decode ?big = Some (ascii ?big)"
    by (rule utf8_decode_ascii) (simp add: list_all_iff)
  have shape: "ascii ?big
      = 0x43 # ascii ''0644'' @ 0x20 # replicate 4301 0x31 @ 0x20 # ascii ''x'' @ newline # []"
    by (simp add: ascii_def newline_def)
  have m: "match_c_command (ascii ?big)
      = Some ([0x43], ascii ''0644'', replicate 4301 0x31, ascii ''x'')"
    unfolding shape
    by (rule match_c_command_grammar)
       (simp_all add: ascii_def is_octal_def is_space_def is_digit_def newline_def list_all_iff)
  have c: "[0x43] = ascii ''C''"
    by (simp add: ascii_def)
  have refused: "py_int (replicate 4301 0x31) = Inl ValueError"
    by (simp add: py_int_def int_max_str_digits_def)
  have h: "handle_command ?big init
       = (Inl ValueError,
          init\<lparr>got_c_command := True, file_command := Some (ascii ''C''),
               file_mode := Some (ascii ''0644'')\<rparr>)"
    using dec m refused unfolding c by (simp add: handle_command_def)
  show ?thesis
    using dec m h unfolding c by blast
qed

text \<open>
  Claim C1, amended. A chunk whose text is a \<open>C\<close> or \<open>D\<close> record (the letter, four octal
  digits, white space, the decimal size, white space, the name, a newline) and whose size
  has no more digits than \<open>int\<close> accepts makes \<open>handle_command\<close>
  set \<open>file_command\<close> to the letter, \<open>file_mode\<close> to the four digits, \<open>file_size\<close> and
  \<open>bytes_remaining\<close> to the size, \<open>file_name\<close> to the name, \<open>got_c_command\<close> and
  \<open>await_response\<close> to true, and return the chunk as it came; the next chunk of an \<open>scp\<close>
  command is then handled as the response. The line \<open>C0644 13 test.txt\<close> gives \<open>C\<close>,
  \<open>0644\<close>, 13 and \<open>test.txt\<close>.
\<close>

theorem handle_command_cd_record:
  assumes "utf8_decode traffic = Some (c # mode @ s1 # digits @ s2 # name @ newline # rest)"
    and "c = 0x43 \<or> c = 0x44" and "length mode = 4" and "list_all is_octal mode"
    and "is_space s1" and "digits \<noteq> []" and "list_all is_digit digits" and "is_space s2"
    and "newline \<notin> set name" and "length digits \<le> int_max_str_digits"
  shows "handle_command traffic self =
           (Inr traffic,
            self\<lparr>got_c_command := True, file_command := Some [c], file_mode := Some mode,
                 file_size := digits_value digits, bytes_remaining := digits_value digits,
                 file_name := name, await_response := True\<rparr>)
         \<and> dispatch cmd (snd (handle_command traffic self)) =
             (if startswith cmd ''scp'' then Response else PassThrough)
         \<and> handle_command (''C0644 13 test.txt'' @ [CHR 0x0A]) init =
             (Inr (''C0644 13 test.txt'' @ [CHR 0x0A]),
              init\<lparr>got_c_command := True, file_command := Some (ascii ''C''),
                   file_mode := Some (ascii ''0644''), file_size := 13, bytes_remaining := 13,
                   file_name := ascii ''test.txt'', await_response := True\<rparr>)
         \<and> dispatch ''scp -t /tmp''
               (snd (handle_command (''C0644 13 test.txt'' @ [CHR 0x0A]) init)) = Response"
proof -
  have m: "match_c_command (c # mode @ s1 # digits @ s2 # name @ newline # rest)
             = Some ([c], mode, digits, name)"
    using assms(2-9) by (rule match_c_command_grammar)
  have general: "handle_command traffic self =
           (Inr traffic,
            self\<lparr>got_c_command := True, file_command := Some [c], file_mode := Some mode,
                 file_size := digits_value digits, bytes_remaining := digits_value digits,
                 file_name := name, await_response := True\<rparr>)"
    using assms(1,10) m by (simp add: handle_command_def py_int_def)
  have next_chunk: "dispatch cmd (snd (handle_command traffic self)) =
             (if startswith cmd ''scp'' then Response else PassThrough)"
    by (simp add: general dispatch_def)
  have example: "handle_command (''C0644 13 test.txt'' @ [CHR 0x0A]) init =
             (Inr (''C0644 13 test.txt'' @ [CHR 0x0A]),
              init\<lparr>got_c_command := True, file_command := Some (ascii ''C''),
                   file_mode := Some (ascii ''0644''), file_size := 13, bytes_remaining := 13,
                   file_name := ascii ''test.txt'', await_response := True\<rparr>)"
    by code_simp
  have example_next: "dispatch ''scp -t /tmp''
               (snd (handle_command (''C0644 13 test.txt'' @ [CHR 0x0A]) init)) = Response"
    by code_simp
  show ?thesis
    using general next_chunk example example_next by blast
qed

text \<open>The theorem at the directory record \<open>D0755 0 subdir\<close>.\<close>

theorem handle_command_cd_record_witness:
  "handle_command (''D0755 0 subdir'' @ [CHR 0x0A]) init =
     (Inr (''D0755 0 subdir'' @ [CHR 0x0A]),
      init\<lparr>got_c_command := True, file_command := Some (ascii ''D''),
           file_mode := Some (ascii ''0755''), file_size := 0, bytes_remaining := 0,
           file_name := ascii ''subdir'', await_response := True\<rparr>)
   \<and> dispatch ''scp -t /tmp'' (snd (handle_command (''D0755 0 subdir'' @ [CHR 0x0A]) init))
       = Response"
proof -
  have dec: "utf8_decode (''D0755 0 subdir'' @ [CHR 0x0A]) =
      Some (0x44 # ascii ''0755'' @ 0x20 # ascii ''0'' @ 0x20 # ascii ''subdir'' @ newline # [])"
    by code_simp
  have h: "(0x44::nat) = 0x43 \<or> (0x44::nat) = 0x44" "length (ascii ''0755'') = 4"
    "list_all is_octal (ascii ''0755'')" "is_space 0x20" "ascii ''0'' \<noteq> []"
    "list_all is_digit (ascii ''0'')" "newline \<notin> set (ascii ''subdir'')"
    "length (ascii ''0'') \<le> int_max_str_digits"
    by code_simp+
  have v: "digits_value (ascii ''0'') = 0" "[0x44] = ascii ''D''" "startswith ''scp -t /tmp'' ''scp''"
    by code_simp+
  show ?thesis
    using handle_command_cd_record [OF dec h(1-6) h(4) h(7) h(8), of init "''scp -t /tmp''"] v
    by (simp add: dispatch_def)
qed

lemma match_c_command_sound:
  assumes "match_c_command command = Some (g1, g2, g3, g4)"
  shows "\<exists>c s1 s2 rest. command = c # g2 @ s1 # g3 @ s2 # g4 @ newline # rest
     \<and> g1 = [c] \<and> (c = 0x43 \<or> c = 0x44) \<and> length g2 = 4 \<and> list_all is_octal g2
     \<and> is_space s1 \<and> g3 \<noteq> [] \<and> list_all is_digit g3 \<and> is_space s2 \<and> newline \<notin> set g4"
proof -
  obtain c r1 where c: "command = c # r1" "c = 0x43 \<or> c = 0x44" "g1 = [c]"
    using assms by (auto simp: match_c_command_def Let_def split: list.splits if_splits)
  have m: "g2 = take 4 r1" "length g2 = 4" "list_all is_octal g2"
    using assms c by (auto simp: match_c_command_def Let_def split: list.splits if_splits)
  obtain s1 r3 where s1: "drop 4 r1 = s1 # r3" "is_space s1"
    using assms c by (auto simp: match_c_command_def Let_def split: list.splits if_splits)
  have d: "g3 = takeWhile is_digit r3" "g3 \<noteq> []"
    using assms c s1 by (auto simp: match_c_command_def Let_def split: list.splits if_splits)
  obtain s2 r5 where s2: "dropWhile is_digit r3 = s2 # r5" "is_space s2"
    using assms c s1 by (auto simp: match_c_command_def Let_def split: list.splits if_splits)
  have n: "g4 = takeWhile (\<lambda>x. x \<noteq> newline) r5" "dropWhile (\<lambda>x. x \<noteq> newline) r5 \<noteq> []"
    using assms c s1 s2 by (auto simp: match_c_command_def Let_def split: list.splits if_splits)
  obtain y rest where r6: "dropWhile (\<lambda>x. x \<noteq> newline) r5 = y # rest"
    using n(2) by (cases "dropWhile (\<lambda>x. x \<noteq> newline) r5") auto
  have "\<not> (y \<noteq> newline)"
    using hd_dropWhile [OF n(2)] r6 by simp
  then have y: "y = newline" by simp
  have "r1 = take 4 r1 @ drop 4 r1" by simp
  then have r1: "r1 = g2 @ s1 # r3" using m s1 by simp
  have "r3 = takeWhile is_digit r3 @ dropWhile is_digit r3" by simp
  then have r3: "r3 = g3 @ s2 # r5" using d s2 by simp
  have "r5 = takeWhile (\<lambda>x. x \<noteq> newline) r5 @ dropWhile (\<lambda>x. x \<noteq> newline) r5" by simp
  then have r5: "r5 = g4 @ newline # rest" using n r6 y by simp
  have dg: "list_all is_digit g3"
    unfolding d(1) list_all_iff using set_takeWhileD by fastforce
  have nm: "newline \<notin> set g4"
    unfolding n(1) using set_takeWhileD by fastforce
  have "command = c # g2 @ s1 # g3 @ s2 # g4 @ newline # rest"
    using c(1) r1 r3 r5 by simp
  then show ?thesis
    using c m s1 d s2 dg nm by blast
qed

lemma cd_line_iff: "cd_line command = (match_c_command command \<noteq> None)"
proof
  assume "cd_line command"
  then show "match_c_command command \<noteq> None"
    unfolding cd_line_def using match_c_command_grammar by fastforce
next
  assume "match_c_command command \<noteq> None"
  then obtain g1 g2 g3 g4 where "match_c_command command = Some (g1, g2, g3, g4)"
    by auto
  from match_c_command_sound [OF this] show "cd_line command"
    unfolding cd_line_def by blast
qed

text \<open>
  Claim C8, as stated, fails at two inputs. A chunk that is not valid UTF-8 is no record,
  and \<open>handle_command\<close> raises \<open>UnicodeDecodeError\<close> on it. And \<open>handle_command\<close> clears
  \<open>got_c_command\<close> before it looks at the chunk, so a malformed line changes a state in
  which the flag is set.
\<close>

theorem handle_command_no_record_counterexample:
  "utf8_decode [CHR 0xFF, CHR 0x0A] = None
   \<and> handle_command [CHR 0xFF, CHR 0x0A] init = (Inl UnicodeDecodeError, init)
   \<and> utf8_decode (''X garbage'' @ [CHR 0x0A]) = Some (ascii (''X garbage'' @ [CHR 0x0A]))
   \<and> match_c_command (ascii (''X garbage'' @ [CHR 0x0A])) = None
   \<and> handle_command (''X garbage'' @ [CHR 0x0A]) (init\<lparr>got_c_command := True\<rparr>)
       = (Inr (''X garbage'' @ [CHR 0x0A]), init)
   \<and> init\<lparr>got_c_command := True\<rparr> \<noteq> init"
  by code_simp

text \<open>
  Claim C8, amended. For every chunk that decodes as UTF-8 and whose text is no \<open>C\<close> or
  \<open>D\<close> record, \<open>handle_command\<close> returns the chunk as it came and raises nothing; it
  clears \<open>got_c_command\<close> and changes no other field, so the state is unchanged whenever
  the flag was clear (as it is when \<open>handle_traffic\<close> calls it). The lines \<open>E\<close>,
  \<open>T1610000000 0 1610000000 0\<close> and \<open>X garbage\<close> leave the initial state as it is.
\<close>

theorem handle_command_no_record:
  assumes "utf8_decode traffic = Some command" and "\<not> cd_line command"
  shows "handle_command traffic self = (Inr traffic, self\<lparr>got_c_command := False\<rparr>)
         \<and> (\<not> got_c_command self \<longrightarrow> handle_command traffic self = (Inr traffic, self))
         \<and> handle_command (''E'' @ [CHR 0x0A]) init = (Inr (''E'' @ [CHR 0x0A]), init)
         \<and> handle_command (''T1610000000 0 1610000000 0'' @ [CHR 0x0A]) init
             = (Inr (''T1610000000 0 1610000000 0'' @ [CHR 0x0A]), init)
         \<and> handle_command (''X garbage'' @ [CHR 0x0A]) init
             = (Inr (''X garbage'' @ [CHR 0x0A]), init)"
proof -
  have none: "match_c_command command = None"
    using assms(2) unfolding cd_line_iff by blast
  have general: "handle_command traffic self = (Inr traffic, self\<lparr>got_c_command := False\<rparr>)"
    using assms(1) none by (simp add: handle_command_def)
  have unchanged: "\<not> got_c_command self \<longrightarrow> handle_command traffic self = (Inr traffic, self)"
    using general by simp
  have e: "handle_command (''E'' @ [CHR 0x0A]) init = (Inr (''E'' @ [CHR 0x0A]), init)"
    by code_simp
  have t: "handle_command (''T1610000000 0 1610000000 0'' @ [CHR 0x0A]) init
             = (Inr (''T1610000000 0 1610000000 0'' @ [CHR 0x0A]), init)"
    by code_simp
  have x: "handle_command (''X garbage'' @ [CHR 0x0A]) init
             = (Inr (''X garbage'' @ [CHR 0x0A]), init)"
    by code_simp
  show ?thesis
    using general unchanged e t x by blast
qed

text \<open>The theorem at the end-of-directory line, in a state with a file size set.\<close>

theorem handle_command_no_record_witness:
  "handle_command (''E'' @ [CHR 0x0A]) (init\<lparr>file_size := 7\<rparr>)
     = (Inr (''E'' @ [CHR 0x0A]), init\<lparr>file_size := 7\<rparr>)"
proof -
  have dec: "utf8_decode (''E'' @ [CHR 0x0A]) = Some (ascii (''E'' @ [CHR 0x0A]))"
    by code_simp
  have "match_c_command (ascii (''E'' @ [CHR 0x0A])) = None"
    by code_simp
  then have no: "\<not> cd_line (ascii (''E'' @ [CHR 0x0A]))"
    by (simp add: cd_line_iff)
  have flag: "\<not> got_c_command (init\<lparr>file_size := 7\<rparr>)"
    by (simp add: init_def)
  show ?thesis
    using handle_command_no_record [OF dec no, of "init\<lparr>file_size := 7\<rparr>"] flag by simp
qed

subsection \<open>The state machine\<close>

lemma handle_command_flags:
  "\<not> await_response self \<Longrightarrow>
   await_response (snd (handle_command traffic self))
     \<longrightarrow> got_c_command (snd (handle_command traffic self))"
  by (simp add: handle_command_def Let_def split: option.splits prod.splits sum.splits)

lemma handle_traffic_flags:
  assumes "await_response self \<longrightarrow> got_c_command self"
  shows "await_response (snd (handle_traffic cmd traffic isclient self))
     \<longrightarrow> got_c_command (snd (handle_traffic cmd traffic isclient self))"
proof (cases "dispatch cmd self")
  case PassThrough
  then show ?thesis using assms by (simp add: handle_traffic_def)
next
  case Response
  then show ?thesis by (simp add: handle_traffic_def process_response_def)
next
  case Command
  then have "\<not> await_response self"
    by (auto simp: dispatch_def split: if_splits)
  with Command show ?thesis using handle_command_flags by (simp add: handle_traffic_def)
next
  case Data
  then have "\<not> await_response self"
    by (auto simp: dispatch_def split: if_splits)
  with Data show ?thesis by (simp add: handle_traffic_def process_data_def)
qed

lemma reachable_flags: "reachable cmd self \<Longrightarrow> await_response self \<longrightarrow> got_c_command self"
proof (induction rule: reachable.induct)
  case reachable_init
  show ?case by (simp add: init_def)
next
  case (reachable_step self traffic isclient)
  then show ?case using handle_traffic_flags by blast
qed

text \<open>
  Claim C5, as stated, fails in the state reached from the initial one by a single
  \<open>handle_traffic\<close> call on a file record: the forwarder awaits the response byte and, by
  the flag and the byte count, streams payload at once.
\<close>

theorem state_conditions_counterexample:
  "reachable ''scp -t /tmp''
     (snd (handle_traffic ''scp -t /tmp'' (''C0644 13 test.txt'' @ [CHR 0x0A]) True init))
   \<and> awaiting_response_byte
       (snd (handle_traffic ''scp -t /tmp'' (''C0644 13 test.txt'' @ [CHR 0x0A]) True init))
   \<and> streaming_payload
       (snd (handle_traffic ''scp -t /tmp'' (''C0644 13 test.txt'' @ [CHR 0x0A]) True init))
   \<and> \<not> at_most_one
       (awaiting_control_line
         (snd (handle_traffic ''scp -t /tmp'' (''C0644 13 test.txt'' @ [CHR 0x0A]) True init)))
       (awaiting_response_byte
         (snd (handle_traffic ''scp -t /tmp'' (''C0644 13 test.txt'' @ [CHR 0x0A]) True init)))
       (streaming_payload
         (snd (handle_traffic ''scp -t /tmp'' (''C0644 13 test.txt'' @ [CHR 0x0A]) True init)))"
proof -
  have r: "reachable ''scp -t /tmp''
     (snd (handle_traffic ''scp -t /tmp'' (''C0644 13 test.txt'' @ [CHR 0x0A]) True init))"
    by (rule reachable_step) (rule reachable_init)
  have a: "awaiting_response_byte
       (snd (handle_traffic ''scp -t /tmp'' (''C0644 13 test.txt'' @ [CHR 0x0A]) True init))"
    by code_simp
  have s: "streaming_payload
       (snd (handle_traffic ''scp -t /tmp'' (''C0644 13 test.txt'' @ [CHR 0x0A]) True init))"
    by code_simp
  show ?thesis
    using r a s by (simp add: at_most_one_def)
qed

text \<open>
  Claim C5, amended. In every state reachable from the initial one through
  \<open>handle_traffic\<close> calls, at most one of the three conditions holds once streaming
  payload is read as \<open>handle_traffic\<close> reads it, that is only while no response is
  awaited; awaiting a response byte itself always comes with the pending-command flag set
  (hence with streaming payload as the flags define it), and \<open>handle_traffic\<close> picks its
  hook by these conditions in the order response, control line, payload.
\<close>

theorem state_conditions:
  assumes "reachable cmd self"
  shows "at_most_one (awaiting_control_line self) (awaiting_response_byte self)
           (streaming_payload self \<and> \<not> await_response self)
         \<and> (awaiting_response_byte self \<longrightarrow> got_c_command self \<and> streaming_payload self)
         \<and> dispatch cmd self =
             (if \<not> startswith cmd ''scp'' then PassThrough
              else if awaiting_response_byte self then Response
              else if awaiting_control_line self then Command
              else Data)"
proof -
  have one: "at_most_one (awaiting_control_line self) (awaiting_response_byte self)
           (streaming_payload self \<and> \<not> await_response self)"
    by (auto simp: at_most_one_def awaiting_control_line_def awaiting_response_byte_def
        streaming_payload_def)
  have both: "awaiting_response_byte self \<longrightarrow> got_c_command self \<and> streaming_payload self"
    using reachable_flags [OF assms]
    by (simp add: awaiting_response_byte_def streaming_payload_def)
  have d: "dispatch cmd self =
             (if \<not> startswith cmd ''scp'' then PassThrough
              else if awaiting_response_byte self then Response
              else if awaiting_control_line self then Command
              else Data)"
    by (simp add: dispatch_def awaiting_response_byte_def awaiting_control_line_def)
  show ?thesis using one both d by blast
qed

text \<open>The theorem in the state right after a file record.\<close>

theorem state_conditions_witness:
  "at_most_one
     (awaiting_control_line
       (snd (handle_traffic ''scp -t /tmp'' (''C0644 13 test.txt'' @ [CHR 0x0A]) True init)))
     (awaiting_response_byte
       (snd (handle_traffic ''scp -t /tmp'' (''C0644 13 test.txt'' @ [CHR 0x0A]) True init)))
     (streaming_payload
       (snd (handle_traffic ''scp -t /tmp'' (''C0644 13 test.txt'' @ [CHR 0x0A]) True init))
      \<and> \<not> await_response
       (snd (handle_traffic ''scp -t /tmp'' (''C0644 13 test.txt'' @ [CHR 0x0A]) True init)))
   \<and> got_c_command
       (snd (handle_traffic ''scp -t /tmp'' (''C0644 13 test.txt'' @ [CHR 0x0A]) True init))"
proof -
  have r: "reachable ''scp -t /tmp''
     (snd (handle_traffic ''scp -t /tmp'' (''C0644 13 test.txt'' @ [CHR 0x0A]) True init))"
    by (rule reachable_step) (rule reachable_init)
  have a: "awaiting_response_byte
       (snd (handle_traffic ''scp -t /tmp'' (''C0644 13 test.txt'' @ [CHR 0x0A]) True init))"
    by code_simp
  show ?thesis
    using state_conditions [OF r] a by blast
qed

text \<open>
  Claim C6, as stated, fails: a file record that arrives with \<open>isclient\<close> false, for an
  \<open>scp\<close> command, changes \<open>await_response\<close> and \<open>bytes_remaining\<close>.
\<close>

theorem handle_traffic_server_chunk_counterexample:
  "startswith ''scp -t /tmp'' ''scp''
   \<and> await_response init = False
   \<and> await_response
       (snd (handle_traffic ''scp -t /tmp'' (''C0644 13 test.txt'' @ [CHR 0x0A]) False init)) = True
   \<and> bytes_remaining init = 0
   \<and> bytes_remaining
       (snd (handle_traffic ''scp -t /tmp'' (''C0644 13 test.txt'' @ [CHR 0x0A]) False init)) = 13
   \<and> snd (handle_traffic ''scp -t /tmp'' (''C0644 13 test.txt'' @ [CHR 0x0A]) False init) \<noteq> init"
  by code_simp

lemma record_example:
  "await_response (snd (handle_command (''C0644 13 test.txt'' @ [CHR 0x0A]) init))"
  "bytes_remaining (snd (handle_command (''C0644 13 test.txt'' @ [CHR 0x0A]) init)) = 13"
  by code_simp+

text \<open>
  Claim C6, amended. The state machine is driven by the chunks of both sides:
  \<open>handle_traffic\<close> does not read \<open>isclient\<close>, so a chunk processed with \<open>isclient\<close>
  false has the result and the effect on the state that it has with \<open>isclient\<close> true. The
  state is left unchanged by every chunk only when the command does not begin with
  \<open>scp\<close>: then every chunk leaves it unchanged, and for every command that begins with
  \<open>scp\<close> a file record that arrives with \<open>isclient\<close> false in the initial state sets
  \<open>await_response\<close> and \<open>bytes_remaining\<close>.
\<close>

theorem handle_traffic_ignores_isclient:
  "handle_traffic cmd traffic False self = handle_traffic cmd traffic True self
   \<and> (\<not> startswith cmd ''scp'' \<longrightarrow> handle_traffic cmd traffic False self = (Inr traffic, self))
   \<and> (startswith cmd ''scp'' \<longrightarrow>
        await_response
          (snd (handle_traffic cmd (''C0644 13 test.txt'' @ [CHR 0x0A]) False init))
        \<and> bytes_remaining
            (snd (handle_traffic cmd (''C0644 13 test.txt'' @ [CHR 0x0A]) False init)) = 13
        \<and> snd (handle_traffic cmd (''C0644 13 test.txt'' @ [CHR 0x0A]) False init) \<noteq> init)"
proof -
  have same: "handle_traffic cmd traffic False self = handle_traffic cmd traffic True self"
    by (simp add: handle_traffic_def)
  have other: "\<not> startswith cmd ''scp'' \<longrightarrow>
      handle_traffic cmd traffic False self = (Inr traffic, self)"
    by (simp add: handle_traffic_def dispatch_def)
  have scp: "await_response
          (snd (handle_traffic cmd (''C0644 13 test.txt'' @ [CHR 0x0A]) False init))
        \<and> bytes_remaining
            (snd (handle_traffic cmd (''C0644 13 test.txt'' @ [CHR 0x0A]) False init)) = 13
        \<and> snd (handle_traffic cmd (''C0644 13 test.txt'' @ [CHR 0x0A]) False init) \<noteq> init"
    if "startswith cmd ''scp''"
  proof -
    have "dispatch cmd init = Command"
      using that by (simp add: dispatch_def init_def)
    then have step: "handle_traffic cmd (''C0644 13 test.txt'' @ [CHR 0x0A]) False init
        = handle_command (''C0644 13 test.txt'' @ [CHR 0x0A]) init"
      by (simp add: handle_traffic_def)
    have "\<not> await_response init"
      by (simp add: init_def)
    then show ?thesis
      unfolding step using record_example by auto
  qed
  show ?thesis
    using same other scp by blast
qed

text \<open>
  The theorem at a file record, for the command \<open>scp -t /tmp\<close> and for another command.
\<close>

theorem handle_traffic_ignores_isclient_witness:
  "handle_traffic ''scp -t /tmp'' (''C0644 13 test.txt'' @ [CHR 0x0A]) False init
     = handle_traffic ''scp -t /tmp'' (''C0644 13 test.txt'' @ [CHR 0x0A]) True init
   \<and> handle_traffic ''ls -l'' (''C0644 13 test.txt'' @ [CHR 0x0A]) False init
     = (Inr (''C0644 13 test.txt'' @ [CHR 0x0A]), init)
   \<and> await_response
       (snd (handle_traffic ''scp -t /tmp'' (''C0644 13 test.txt'' @ [CHR 0x0A]) False init))
   \<and> bytes_remaining
       (snd (handle_traffic ''scp -t /tmp'' (''C0644 13 test.txt'' @ [CHR 0x0A]) False init)) = 13"
proof -
  have n: "\<not> startswith ''ls -l'' ''scp''" and y: "startswith ''scp -t /tmp'' ''scp''"
    by code_simp+
  show ?thesis
    using handle_traffic_ignores_isclient
            [of "''scp -t /tmp''" "''C0644 13 test.txt'' @ [CHR 0x0A]" init]
          handle_traffic_ignores_isclient
            [of "''ls -l''" "''C0644 13 test.txt'' @ [CHR 0x0A]" init] n y
    by blast
qed

lemma handle_command_bytes_remaining:
  "bytes_remaining (snd (handle_command traffic self)) =
     (case parsed_size traffic of None \<Rightarrow> bytes_remaining self | Some n \<Rightarrow> n)"
  by (simp add: handle_command_def parsed_size_def Let_def
      split: option.splits prod.splits sum.splits)

lemma handle_traffic_bytes_remaining:
  "bytes_remaining (snd (handle_traffic cmd traffic isclient self)) =
     (if dispatch cmd self = Command
      then (case parsed_size traffic of None \<Rightarrow> bytes_remaining self | Some n \<Rightarrow> n)
      else bytes_remaining self)"
  by (cases "dispatch cmd self")
     (simp_all add: handle_traffic_def process_data_def process_response_def
        handle_command_bytes_remaining)

lemma data_step:
  assumes "startswith cmd ''scp''" and "\<not> await_response self" and "bytes_remaining self \<noteq> 0"
  shows "dispatch cmd self = Data"
    and "handle_traffic cmd traffic isclient self = (Inr traffic, self\<lparr>got_c_command := False\<rparr>)"
proof -
  show d: "dispatch cmd self = Data"
    using assms by (simp add: dispatch_def)
  show "handle_traffic cmd traffic isclient self = (Inr traffic, self\<lparr>got_c_command := False\<rparr>)"
    by (simp add: handle_traffic_def d process_data_def)
qed

lemma data_forever:
  assumes "startswith cmd ''scp''"
  shows "\<not> await_response self \<Longrightarrow> bytes_remaining self \<noteq> 0 \<Longrightarrow>
     feed_trace cmd chunks self = map (\<lambda>(traffic, isclient). (Data, Inr traffic)) chunks
     \<and> bytes_remaining (feed cmd chunks self) = bytes_remaining self
     \<and> \<not> await_response (feed cmd chunks self)"
proof (induction chunks arbitrary: self)
  case Nil
  then show ?case by simp
next
  case (Cons chunk chunks)
  obtain traffic isclient where chunk: "chunk = (traffic, isclient)"
    by (cases chunk)
  have step: "dispatch cmd self = Data"
    "handle_traffic cmd traffic isclient self = (Inr traffic, self\<lparr>got_c_command := False\<rparr>)"
    using data_step [OF assms Cons.prems] by simp_all
  have "\<not> await_response (self\<lparr>got_c_command := False\<rparr>)"
    "bytes_remaining (self\<lparr>got_c_command := False\<rparr>) \<noteq> 0"
    using Cons.prems by simp_all
  from Cons.IH [OF this] show ?case
    by (simp add: chunk step)
qed

text \<open>
  Claim C7. \<open>bytes_remaining\<close> is 0 at construction and no operation of the forwarder
  changes it but \<open>handle_command\<close> on a record, which assigns the parsed size (a record
  whose size \<open>int\<close> refuses is not parsed: the call raises and the field stays). So once a
  record with a positive size has been parsed and the chunk after it taken as its response,
  every later chunk is routed to \<open>process_data\<close> and returned as it came, and
  \<open>bytes_remaining\<close> keeps the size: no later chunk is parsed as a control line.
\<close>

theorem bytes_remaining_only_assigned:
  assumes "startswith cmd ''scp''" and "dispatch cmd self = Command"
    and "parsed_size line = Some n" and "0 < n"
  shows "bytes_remaining init = 0
     \<and> bytes_remaining (snd (process_data traffic self')) = bytes_remaining self'
     \<and> bytes_remaining (snd (process_response traffic self')) = bytes_remaining self'
     \<and> bytes_remaining (snd (handle_command traffic self')) =
         (case parsed_size traffic of None \<Rightarrow> bytes_remaining self' | Some k \<Rightarrow> k)
     \<and> bytes_remaining (snd (handle_traffic cmd traffic isclient self')) =
         (if dispatch cmd self' = Command
          then (case parsed_size traffic of None \<Rightarrow> bytes_remaining self' | Some k \<Rightarrow> k)
          else bytes_remaining self')
     \<and> feed_trace cmd chunks (feed cmd [(line, line_dir), (response, response_dir)] self)
         = map (\<lambda>(traffic, isclient). (Data, Inr traffic)) chunks
     \<and> bytes_remaining (feed cmd chunks (feed cmd [(line, line_dir), (response, response_dir)] self)) = n"
proof -
  let ?s1 = "snd (handle_traffic cmd line line_dir self)"
  let ?s2 = "feed cmd [(line, line_dir), (response, response_dir)] self"
  have s1: "?s1 = snd (handle_command line self)"
    using assms(2) by (simp add: handle_traffic_def)
  have a1: "await_response ?s1"
    using assms(3) unfolding s1
    by (auto simp: handle_command_def parsed_size_def Let_def
        split: option.splits sum.splits)
  have r1: "bytes_remaining ?s1 = n"
    using assms(3) unfolding s1 by (simp add: handle_command_bytes_remaining)
  have d1: "dispatch cmd ?s1 = Response"
    using assms(1) a1 by (simp add: dispatch_def)
  have s2: "?s2 = ?s1\<lparr>await_response := False\<rparr>"
    by (simp add: handle_traffic_def [of cmd response] d1 process_response_def)
  have a2: "\<not> await_response ?s2" and b2: "bytes_remaining ?s2 \<noteq> 0" and b2': "bytes_remaining ?s2 = n"
    using r1 assms(4) unfolding s2 by simp_all
  have run: "feed_trace cmd chunks ?s2 = map (\<lambda>(traffic, isclient). (Data, Inr traffic)) chunks"
    "bytes_remaining (feed cmd chunks ?s2) = n"
    using data_forever [OF assms(1) a2 b2, of chunks] b2' by simp_all
  have i: "bytes_remaining init = 0"
    by (simp add: init_def)
  have p: "bytes_remaining (snd (process_data traffic self')) = bytes_remaining self'"
    "bytes_remaining (snd (process_response traffic self')) = bytes_remaining self'"
    by (simp_all add: process_data_def process_response_def)
  show ?thesis
    using i p handle_command_bytes_remaining [of traffic self']
      handle_traffic_bytes_remaining [of cmd traffic isclient self'] run
    by blast
qed

text \<open>
  The theorem after the record \<open>C0644 13 test.txt\<close>: the thirteen bytes of the file, the
  closing zero byte and the next record are all taken as payload.
\<close>

theorem bytes_remaining_only_assigned_witness:
  "feed_trace ''scp -t /tmp''
     [(''Hello, world!'', True), ([CHR 0x00], True), (''C0600 5 next'' @ [CHR 0x0A], True)]
     (feed ''scp -t /tmp'' [(''C0644 13 test.txt'' @ [CHR 0x0A], True), ([CHR 0x00], False)] init)
     = [(Data, Inr ''Hello, world!''), (Data, Inr [CHR 0x00]),
        (Data, Inr (''C0600 5 next'' @ [CHR 0x0A]))]
   \<and> bytes_remaining
       (feed ''scp -t /tmp''
         [(''Hello, world!'', True), ([CHR 0x00], True), (''C0600 5 next'' @ [CHR 0x0A], True)]
         (feed ''scp -t /tmp''
           [(''C0644 13 test.txt'' @ [CHR 0x0A], True), ([CHR 0x00], False)] init)) = 13"
proof -
  have h: "startswith ''scp -t /tmp'' ''scp''" "dispatch ''scp -t /tmp'' init = Command"
    "parsed_size (''C0644 13 test.txt'' @ [CHR 0x0A]) = Some 13" "(0::int) < 13"
    by code_simp+
  show ?thesis
    using bytes_remaining_only_assigned [OF h,
        where chunks = "[(''Hello, world!'', True), ([CHR 0x00], True),
                         (''C0600 5 next'' @ [CHR 0x0A], True)]"
          and line_dir = True and response = "[CHR 0x00]" and response_dir = False
          and traffic = "[]" and self' = init and isclient = True]
    by simp
qed

subsection \<open>sendall\<close>

lemma slice_from_nat: "slice_from data (int k) = drop k data"
  by (simp add: slice_from_def)

lemma calls_ok_end: "length data \<le> k \<Longrightarrow> calls_ok f data k w"
  by (subst calls_ok.simps) simp

lemma calls_ok_step:
  assumes "k < length data" and "f (drop k data) w = (n, w')"
  shows "calls_ok f data k w
           = (0 < n \<and> n \<le> int (length data - k) \<and> calls_ok f data (k + nat n) w')"
  using assms by (subst calls_ok.simps) auto

lemma sendall_loop_progress:
  "calls_ok f data k w \<Longrightarrow> k \<le> length data \<Longrightarrow>
     \<exists>w'. sendall_loop f data (int k) w = Some (int (length data), w')"
proof (induction "length data - k" arbitrary: k w rule: less_induct)
  case less
  show ?case
  proof (cases "k = length data")
    case True
    then show ?thesis
      by (subst sendall_loop.simps) simp
  next
    case False
    with less.prems have lt: "k < length data" by simp
    obtain n w1 where f: "f (drop k data) w = (n, w1)"
      by (cases "f (drop k data) w")
    have ok: "0 < n" "n \<le> int (length data - k)" "calls_ok f data (k + nat n) w1"
      using less.prems(1) calls_ok_step [of k data f w n w1, OF lt f] by simp_all
    have k': "k + nat n \<le> length data" "length data - (k + nat n) < length data - k"
      using ok lt by simp_all
    from less.hyps [OF k'(2) ok(3) k'(1)]
    obtain w' where "sendall_loop f data (int (k + nat n)) w1 = Some (int (length data), w')"
      by blast
    moreover have "int (k + nat n) = int k + n"
      using ok by simp
    ultimately have rec: "sendall_loop f data (int k + n) w1 = Some (int (length data), w')"
      by simp
    show ?thesis
      using lt ok f rec by (subst sendall_loop.simps) (simp add: slice_from_nat)
  qed
qed

lemma sendall_loop_recording:
  "calls_ok f data k w \<Longrightarrow> k \<le> length data \<Longrightarrow>
     \<exists>w' calls. sendall_loop (recording f) data (int k) (w, log)
                   = Some (int (length data), (w', log @ calls))
                 \<and> sends_all calls (drop k data)"
proof (induction "length data - k" arbitrary: k w log rule: less_induct)
  case less
  show ?case
  proof (cases "k = length data")
    case True
    have "sendall_loop (recording f) data (int k) (w, log)
            = Some (int (length data), (w, log @ []))"
      using True by (subst sendall_loop.simps) simp
    moreover have "sends_all [] (drop k data)"
      using True by simp
    ultimately show ?thesis by blast
  next
    case False
    with less.prems have lt: "k < length data" by simp
    obtain n w1 where f: "f (drop k data) w = (n, w1)"
      by (cases "f (drop k data) w")
    have ok: "0 < n" "n \<le> int (length data - k)" "calls_ok f data (k + nat n) w1"
      using less.prems(1) calls_ok_step [of k data f w n w1, OF lt f] by simp_all
    have n: "n \<le> int (length (drop k data))"
      using ok(2) by simp
    have k': "k + nat n \<le> length data" "length data - (k + nat n) < length data - k"
      using ok lt by simp_all
    from less.hyps [OF k'(2) ok(3) k'(1), of "log @ [(drop k data, n)]"]
    obtain w' calls where rec:
      "sendall_loop (recording f) data (int (k + nat n)) (w1, log @ [(drop k data, n)])
         = Some (int (length data), (w', (log @ [(drop k data, n)]) @ calls))"
      "sends_all calls (drop (k + nat n) data)"
      by blast
    have idx: "int (k + nat n) = int k + n"
      using ok by simp
    have step: "sendall_loop (recording f) data (int k) (w, log)
            = Some (int (length data), (w', log @ ((drop k data, n) # calls)))"
      using lt ok f rec(1) unfolding idx
      by (subst sendall_loop.simps) (simp add: slice_from_nat recording_def)
    have "sends_all ((drop k data, n) # calls) (drop k data)"
      using ok(1) n rec(2) by (simp add: add.commute)
    with step show ?thesis by blast
  qed
qed

lemma send4_example:
  "sendall (\<lambda>p. False) ''0123456789'' (recording send4) ((), [])
     = Some (10, ((), [(''0123456789'', 4), (''456789'', 4), (''89'', 2)]))"
  apply (simp add: sendall_def)
  apply (subst sendall_loop.simps, simp add: recording_def send4_def slice_from_def)
  apply (subst sendall_loop.simps, simp add: recording_def send4_def slice_from_def)
  apply (subst sendall_loop.simps, simp add: recording_def send4_def slice_from_def)
  apply (subst sendall_loop.simps, simp add: recording_def send4_def slice_from_def)
  done


text \<open>
  A callable that reports more than it was given makes \<open>sent\<close> pass the length of the
  buffer, and the loop then never returns. The count that a send primitive reports as
  written is therefore taken within the buffer of the call.
\<close>

lemma sendall_loop_overshoot_aux:
  assumes "sendall_loop f data sent w = Some y"
  shows "\<not> (int (length data) < sent \<and> (\<forall>r v. 0 < fst (f r v)))"
proof (rule sendall_loop.raw_induct
    [where P = "\<lambda>f data sent w y. \<not> (int (length data) < sent \<and> (\<forall>r v. 0 < fst (f r v)))",
      OF _ assms])
  fix loop :: "(bytes \<Rightarrow> 'a \<Rightarrow> int \<times> 'a) \<Rightarrow> bytes \<Rightarrow> int \<Rightarrow> 'a \<Rightarrow> (int \<times> 'a) option"
    and g data' sent' w' y'
  assume ih: "\<And>g data sent w y. loop g data sent w = Some y \<Longrightarrow>
      \<not> (int (length data) < sent \<and> (\<forall>r v. 0 < fst (g r v)))"
    and body: "(if sent' \<noteq> int (length data')
      then case g (slice_from data' sent') w' of
           (newsent, w'') \<Rightarrow>
             if newsent = 0 then Some (0, w'')
             else loop g data' (sent' + newsent) w''
      else Some (sent', w')) = Some y'"
  show "\<not> (int (length data') < sent' \<and> (\<forall>r v. 0 < fst (g r v)))"
  proof
    assume a: "int (length data') < sent' \<and> (\<forall>r v. 0 < fst (g r v))"
    obtain n w1 where g: "g (slice_from data' sent') w' = (n, w1)"
      by (cases "g (slice_from data' sent') w'")
    have "0 < fst (g (slice_from data' sent') w')"
      using a by blast
    then have n: "0 < n"
      using g by simp
    have "loop g data' (sent' + n) w1 = Some y'"
      using body a g n by simp
    from ih [OF this] show False
      using a n by simp
  qed
qed

lemma sendall_loop_overshoot:
  assumes "int (length data) < sent" and "\<forall>r v. 0 < fst (f r v)"
  shows "sendall_loop f data sent w = None"
proof (cases "sendall_loop f data sent w")
  case None
  then show ?thesis .
next
  case (Some y)
  from sendall_loop_overshoot_aux [OF this] assms show ?thesis by blast
qed

lemma sendall_overreport:
  "sendall (\<lambda>w. False) ''0123456789'' reports4 () = None"
proof -
  have "sendall_loop reports4 ''0123456789'' 12 () = None"
    by (rule sendall_loop_overshoot) (simp_all add: reports4_def)
  then show ?thesis
    apply (simp add: sendall_def)
    apply (subst sendall_loop.simps, simp add: reports4_def)
    apply (subst sendall_loop.simps, simp add: reports4_def)
    apply (subst sendall_loop.simps, simp add: reports4_def)
    done
qed

text \<open>
  Claim C2, as stated, fails: every call of \<open>reports4\<close> reports a positive number, four,
  and on a buffer of ten bytes \<open>sendall\<close> never returns, so it does not return 10. The
  third call was given two bytes and reported four.
\<close>

theorem sendall_writes_whole_buffer_counterexample:
  "fst (reports4 ''0123456789'' ()) = 4
   \<and> fst (reports4 ''456789'' ()) = 4
   \<and> fst (reports4 ''89'' ()) = 4
   \<and> sendall (\<lambda>w. False) ''0123456789'' reports4 () = None"
  using sendall_overreport by (simp add: reports4_def)

text \<open>
  Claim C2, amended. For a non-empty buffer and a channel that does not report exit
  status, when every call that \<open>sendall\<close> makes to the send primitive reports a positive
  number of bytes that is at most the length of the remainder it was given, \<open>sendall\<close>
  returns the full length of the buffer, and the calls it makes send the buffer piece by
  piece: the first gets the whole buffer, each next one the remainder the previous left,
  until nothing is left. With a primitive that takes at most four bytes per call and a
  buffer of ten bytes there are three calls, of 4, 4 and 2 bytes, and the result is 10.
\<close>

theorem sendall_writes_whole_buffer:
  assumes "data \<noteq> []" and "\<not> ready w" and "calls_ok f data 0 w"
  shows "(\<exists>w'. sendall ready data f w = Some (int (length data), w'))
     \<and> (\<exists>w' calls. sendall (\<lambda>p. ready (fst p)) data (recording f) (w, [])
                        = Some (int (length data), (w', calls))
                      \<and> sends_all calls data)
     \<and> sendall (\<lambda>p. False) ''0123456789'' (recording send4) ((), [])
         = Some (10, ((), [(''0123456789'', 4), (''456789'', 4), (''89'', 2)]))"
proof -
  have plain: "\<exists>w'. sendall ready data f w = Some (int (length data), w')"
    using sendall_loop_progress [OF assms(3), of] assms(1,2)
    by (simp add: sendall_def)
  have recorded: "\<exists>w' calls. sendall (\<lambda>p. ready (fst p)) data (recording f) (w, [])
                        = Some (int (length data), (w', calls))
                      \<and> sends_all calls data"
    using sendall_loop_recording [OF assms(3), of "[]"] assms(1,2)
    by (simp add: sendall_def)
  show ?thesis
    using plain recorded send4_example by blast
qed

text \<open>
  The theorem at a primitive with a state, which takes four bytes at most in each of its
  first three calls and would report zero in a fourth: the run makes three calls.
\<close>

theorem sendall_writes_whole_buffer_witness:
  "(\<exists>w'. sendall (\<lambda>w. False) ''0123456789'' send4_thrice 0 = Some (10, w'))
   \<and> (\<exists>w' calls. sendall (\<lambda>p. False) ''0123456789'' (recording send4_thrice) (0, [])
                      = Some (10, (w', calls))
                    \<and> sends_all calls ''0123456789'')"
proof -
  have d: "''0123456789'' \<noteq> []" by simp
  have "calls_ok send4_thrice ''0123456789'' 10 3"
    by (rule calls_ok_end) simp
  then have "calls_ok send4_thrice ''0123456789'' 8 2"
    by (subst calls_ok_step [where n = 2 and w' = 3]) (simp_all add: send4_thrice_def)
  then have "calls_ok send4_thrice ''0123456789'' 4 1"
    by (subst calls_ok_step [where n = 4 and w' = 2]) (simp_all add: send4_thrice_def)
  then have g: "calls_ok send4_thrice ''0123456789'' 0 0"
    by (subst calls_ok_step [where n = 4 and w' = 1]) (simp_all add: send4_thrice_def)
  have l: "int (length ''0123456789'') = 10" by simp
  show ?thesis
    using sendall_writes_whole_buffer [of "''0123456789''" "\<lambda>w. False" 0 send4_thrice, OF d _ g]
    unfolding l by blast
qed

text \<open>
  Claim C9. For a non-empty buffer and a channel that does not report exit status, when
  the first call of the send primitive reports zero bytes, \<open>sendall\<close> returns 0 and the
  world is the one that single call left: the primitive was called once, with the whole
  buffer, and the rest is not retried.
\<close>

theorem sendall_zero_first_call:
  assumes "data \<noteq> []" and "\<not> ready w" and "fst (f data w) = 0"
  shows "sendall ready data f w = Some (0, snd (f data w))
     \<and> sendall (\<lambda>p. ready (fst p)) data (recording f) (w, [])
         = Some (0, (snd (f data w), [(data, 0)]))"
proof -
  obtain w1 where f: "f data w = (0, w1)"
    using assms(3) by (cases "f data w") simp
  have s: "slice_from data 0 = data"
    by (simp add: slice_from_def)
  have plain: "sendall_loop f data 0 w = Some (0, w1)"
    using assms(1) f by (subst sendall_loop.simps) (simp add: s)
  have recorded: "sendall_loop (recording f) data 0 (w, []) = Some (0, (w1, [(data, 0)]))"
    using assms(1) f by (subst sendall_loop.simps) (simp add: s recording_def)
  show ?thesis
    using assms(1,2) plain recorded f by (simp add: sendall_def)
qed

text \<open>The theorem at a primitive that always reports zero.\<close>

theorem sendall_zero_first_call_witness:
  "sendall (\<lambda>w. False) ''abc'' (\<lambda>r w. (0, w)) () = Some (0, ())
   \<and> sendall (\<lambda>p. False) ''abc'' (recording (\<lambda>r w. (0, w))) ((), [])
       = Some (0, ((), [(''abc'', 0)]))"
proof -
  have d: "''abc'' \<noteq> []" by simp
  have z: "fst ((\<lambda>r w. (0::int, w)) ''abc'' ()) = 0" by simp
  show ?thesis
    using sendall_zero_first_call [of "''abc''" "\<lambda>w. False" "()" "\<lambda>r w. (0, w)", OF d _ z]
    by simp
qed

subsection \<open>close_session\<close>

lemma close_session_open:
  assumes "\<not> closed c"
  shows "close_session base c =
           base (unlink (send_user_message (close_message c)
             (if \<not> eof_received c
              then send_user_message (eow_message c) (send_user_message (eof_message c) c)
              else c)))"
  using assms
  by (simp add: close_session_def Let_def send_user_message_def close_message_def eow_message_def)

lemma close_session_closes:
  assumes "\<not> closed c"
  shows "\<exists>c'. close_session base c = base c' \<and> closed c'"
proof -
  let ?c' = "unlink (send_user_message (close_message c)
             (if \<not> eof_received c
              then send_user_message (eow_message c) (send_user_message (eof_message c) c)
              else c))"
  have "closed ?c'"
    using assms by (simp add: unlink_def send_user_message_def)
  moreover have "close_session base c = base ?c'"
    using assms by (rule close_session_open)
  ultimately show ?thesis by blast
qed

text \<open>
  Claim C3. On a channel that is not closed \<open>close_session\<close> hands the transport, in this
  order, the channel-EOF message and the channel request \<open>eow@openssh.com\<close> with
  want-reply false (both only when no end-of-file has been received), then the
  channel-close message, each for the channel's remote id; then it detaches the channel
  from the transport's channel table; and it calls the parent's \<open>close_session\<close> on the
  channel so left.
\<close>

theorem close_session_sequence:
  assumes "\<not> closed c"
  shows "\<exists>c'. close_session base c = base c'
     \<and> c' = unlink (send_user_message (close_message c)
               (if \<not> eof_received c
                then send_user_message (eow_message c) (send_user_message (eof_message c) c)
                else c))
     \<and> sent_messages (transport c') = sent_messages (transport c)
          @ (if \<not> eof_received c
             then [[AddByte cMSG_CHANNEL_EOF, AddInt (remote_chanid c)],
                   [AddByte cMSG_CHANNEL_REQUEST, AddInt (remote_chanid c),
                    AddString ''eow@openssh.com'', AddBoolean False]]
             else [])
          @ [[AddByte cMSG_CHANNEL_CLOSE, AddInt (remote_chanid c)]]
     \<and> channels (transport c') = channels (transport c) - {chanid c}
     \<and> closed c'"
  using assms
  by (simp add: close_session_open unlink_def send_user_message_def close_message_def
      eow_message_def eof_message_def)

text \<open>
  The theorem at an open channel with remote id 7, with a parent method that leaves a
  mark in the exit status.
\<close>

theorem close_session_sequence_witness:
  "close_session (\<lambda>c. c\<lparr>exit_status := 99\<rparr>) open_channel =
     open_channel\<lparr>closed := True, status_event := True, exit_status := 99,
       transport := \<lparr> sent_messages =
           [[AddByte 96, AddInt 7],
            [AddByte 98, AddInt 7, AddString ''eow@openssh.com'', AddBoolean False],
            [AddByte 97, AddInt 7]],
         channels = {0} \<rparr>\<rparr>"
proof -
  have o: "\<not> closed open_channel"
    by (simp add: open_channel_def)
  have "{0, 1} - {1} = {0::int}" by auto
  then show ?thesis
    using close_session_sequence [OF o, of "\<lambda>c. c\<lparr>exit_status := 99\<rparr>"]
    by (auto simp: open_channel_def example_transport_def unlink_def send_user_message_def
        close_message_def eow_message_def eof_message_def cMSG_CHANNEL_EOF_def
        cMSG_CHANNEL_CLOSE_def cMSG_CHANNEL_REQUEST_def)
qed

text \<open>
  Claim C10. On a closed channel \<open>close_session\<close> does nothing: no message is sent and
  the channel is returned as it was, so calling it twice changes nothing. On any channel,
  the second of two calls in succession does nothing, given that the parent's
  \<open>close_session\<close> leaves a closed channel closed.
\<close>

theorem close_session_idempotent:
  "(closed c \<longrightarrow> close_session base c = c \<and> close_session base (close_session base c) = c)
   \<and> ((\<forall>x. closed x \<longrightarrow> closed (base x))
        \<longrightarrow> close_session base (close_session base c) = close_session base c)"
proof -
  have noop: "closed c \<longrightarrow> close_session base c = c \<and> close_session base (close_session base c) = c"
    by (simp add: close_session_def)
  have twice: "close_session base (close_session base c) = close_session base c"
    if keeps: "\<forall>x. closed x \<longrightarrow> closed (base x)"
  proof (cases "closed c")
    case True
    then show ?thesis by (simp add: close_session_def)
  next
    case False
    from close_session_closes [OF False, of base]
    obtain c' where c': "close_session base c = base c'" "closed c'"
      by blast
    then have "closed (close_session base c)"
      using keeps by simp
    then show ?thesis
      by (simp add: close_session_def)
  qed
  show ?thesis using noop twice by blast
qed

text \<open>The theorem at a closed and at an open channel, the parent method doing nothing.\<close>

theorem close_session_idempotent_witness:
  "close_session (\<lambda>c. c) (open_channel\<lparr>closed := True\<rparr>) = open_channel\<lparr>closed := True\<rparr>
   \<and> close_session (\<lambda>c. c) (close_session (\<lambda>c. c) open_channel)
       = close_session (\<lambda>c. c) open_channel"
proof -
  have c: "closed (open_channel\<lparr>closed := True\<rparr>)" by simp
  have k: "\<forall>x. closed x \<longrightarrow> closed ((\<lambda>c. c) x)" by simp
  show ?thesis
    using close_session_idempotent [of "open_channel\<lparr>closed := True\<rparr>" "\<lambda>c. c"]
      close_session_idempotent [of open_channel "\<lambda>c. c"] c k
    by blast
qed

subsection \<open>forward\<close>

lemma loop_body_after_relay:
  assumes "scp_channel w = Some c0" and "relay X w = Some (Inr w1)"
  shows "loop_body X w = exit_checks X w1"
  using assms by (simp add: loop_body_def and_then_def)

lemma forward_loop_break:
  assumes "running w" and "loop_body X w = Some (Inr (Break, w'))"
  shows "forward_loop X w = Some (Inr w')"
  using assms by (subst forward_loop.simps) simp

lemma forward_loop_raise:
  assumes "running w" and "loop_body X w = Some (Inl e)"
  shows "forward_loop X w = Some (Inl e)"
  using assms by (subst forward_loop.simps) simp

lemma relay_idle:
  assumes "scp_channel w = Some c"
    and "\<not> recv_ready c" and "\<not> recv_ready (server_channel w)"
    and "\<not> recv_stderr_ready c" and "\<not> recv_stderr_ready (server_channel w)"
  shows "relay X w = Some (Inr w)"
  using assms
  by (simp add: relay_def and_then_def relay_client_data_def relay_server_data_def
      relay_client_stderr_def relay_server_stderr_def with_scp_def)

lemma exit_checks_server_status:
  assumes "scp_channel w = Some c" and "status_event (server_channel w)"
    and "0 \<le> exit_status (server_channel w)" and "exit_status (server_channel w) < 2 ^ 32"
  shows "exit_checks X w = Some (Inr (Break,
           w\<lparr>scp_channel := Some (close_session (base_close_session X)
                 (send_user_message
                    (exit_status_message c (exit_status (server_channel w))) c))\<rparr>))"
  using assms
  by (simp add: exit_checks_def exit_status_ready_def recv_exit_status_def with_scp_def
      send_exit_status_def)

lemma exit_checks_server_status_refused:
  assumes "scp_channel w = Some c" and "status_event (server_channel w)"
    and "exit_status (server_channel w) < 0 \<or> 2 ^ 32 \<le> exit_status (server_channel w)"
  shows "exit_checks X w = Some (Inl StructError)"
  using assms
  by (auto simp: exit_checks_def exit_status_ready_def recv_exit_status_def with_scp_def
      send_exit_status_def)

lemma exit_checks_client_status:
  assumes "scp_channel w = Some c" and "\<not> exit_status_ready (server_channel w)"
    and "status_event c"
  shows "exit_checks X w = Some (Inr (Break,
           w\<lparr>scp_channel := Some (close_session (base_close_session X) c)\<rparr>))"
  using assms
  by (simp add: exit_checks_def exit_status_ready_def recv_exit_status_def with_scp_def)

text \<open>
  What the loop does at the exit tests, in a pass whose four relay steps have returned.
  A status of the server side that fits an unsigned field of 32 bits is handed to the
  client side as an \<open>exit-status\<close> request, the client-side channel is closed with
  \<open>close_session\<close> and the loop ends. A status that does not fit makes
  \<open>send_exit_status\<close> raise: the loop ends with that exception and the client-side channel
  is not closed. When only the client side has a status, its channel is closed with
  \<open>close_session\<close>, the loop ends and the server-side channel is left as it was.
\<close>

lemma forward_exit_status:
  assumes "running w" and "scp_channel w = Some c0"
    and "relay X w = Some (Inr w1)" and "scp_channel w1 = Some c"
  shows "(status_event (server_channel w1) \<and> 0 \<le> exit_status (server_channel w1)
            \<and> exit_status (server_channel w1) < 2 ^ 32 \<longrightarrow>
            forward_loop X w = Some (Inr
              (w1\<lparr>scp_channel := Some (close_session (base_close_session X)
                    (send_user_message
                       (exit_status_message c (exit_status (server_channel w1))) c))\<rparr>))
            \<and> sent_messages (transport (send_user_message
                  (exit_status_message c (exit_status (server_channel w1))) c))
                = sent_messages (transport c)
                  @ [[AddByte cMSG_CHANNEL_REQUEST, AddInt (remote_chanid c),
                      AddString ''exit-status'', AddBoolean False,
                      AddInt (exit_status (server_channel w1))]])
     \<and> (status_event (server_channel w1)
          \<and> (exit_status (server_channel w1) < 0 \<or> 2 ^ 32 \<le> exit_status (server_channel w1))
          \<longrightarrow> forward_loop X w = Some (Inl StructError))
     \<and> (\<not> exit_status_ready (server_channel w1) \<and> status_event c \<longrightarrow>
            forward_loop X w = Some (Inr
              (w1\<lparr>scp_channel := Some (close_session (base_close_session X) c)\<rparr>)))"
proof -
  have body: "loop_body X w = exit_checks X w1"
    using assms(2,3) by (rule loop_body_after_relay)
  have server: "forward_loop X w = Some (Inr
              (w1\<lparr>scp_channel := Some (close_session (base_close_session X)
                    (send_user_message
                       (exit_status_message c (exit_status (server_channel w1))) c))\<rparr>))"
    if "status_event (server_channel w1)" and "0 \<le> exit_status (server_channel w1)"
      and "exit_status (server_channel w1) < 2 ^ 32"
    using forward_loop_break [OF assms(1)] body exit_checks_server_status [OF assms(4) that]
    by simp
  have msg: "sent_messages (transport (send_user_message
                  (exit_status_message c (exit_status (server_channel w1))) c))
                = sent_messages (transport c)
                  @ [[AddByte cMSG_CHANNEL_REQUEST, AddInt (remote_chanid c),
                      AddString ''exit-status'', AddBoolean False,
                      AddInt (exit_status (server_channel w1))]]"
    by (simp add: send_user_message_def exit_status_message_def)
  have refused: "forward_loop X w = Some (Inl StructError)"
    if "status_event (server_channel w1)"
      and "exit_status (server_channel w1) < 0 \<or> 2 ^ 32 \<le> exit_status (server_channel w1)"
    using forward_loop_raise [OF assms(1)] body
      exit_checks_server_status_refused [OF assms(4) that]
    by simp
  have client: "forward_loop X w = Some (Inr
              (w1\<lparr>scp_channel := Some (close_session (base_close_session X) c)\<rparr>))"
    if "\<not> exit_status_ready (server_channel w1)" and "status_event c"
    using forward_loop_break [OF assms(1)] body exit_checks_client_status [OF assms(4) that]
    by simp
  show ?thesis
    using server msg refused client by blast
qed

text \<open>
  Claim C4 at a server-side channel that the peer closed without sending an exit status,
  in an idle session. The closed channel reports exit status ready, and the status read
  from it is \<open>-1\<close>, the value it holds when none has arrived. \<open>send_exit_status\<close> raises
  on it, so \<open>forward\<close> ends with \<open>struct.error\<close>: the status is not sent and
  \<open>close_session\<close> is not called, while the claim has the client-side channel closed
  before the loop ends. The test at lines 92 to 95, which closes the client-side channel
  when the server-side channel is closed, is never reached for such a channel.
\<close>

theorem forward_closed_server_raises:
  "exit_status_ready (open_channel\<lparr>chanid := 0, closed := True, status_event := True\<rparr>)
   \<and> recv_exit_status (open_channel\<lparr>chanid := 0, closed := True, status_event := True\<rparr>)
       = Some (- 1)
   \<and> forward_loop example_externals
       (example_world (open_channel\<lparr>chanid := 0, closed := True, status_event := True\<rparr>)
          open_channel)
     = Some (Inl StructError)"
proof -
  let ?server = "open_channel\<lparr>chanid := 0, closed := True, status_event := True\<rparr>"
  let ?w = "example_world ?server open_channel"
  have ready: "exit_status_ready ?server"
    by (simp add: exit_status_ready_def)
  have status: "recv_exit_status ?server = Some (- 1)"
    by (simp add: recv_exit_status_def open_channel_def)
  have r: "running ?w" and s: "scp_channel ?w = Some open_channel"
    by (simp_all add: example_world_def)
  have idle: "relay example_externals ?w = Some (Inr ?w)"
    by (rule relay_idle [OF s])
       (simp_all add: example_world_def open_channel_def recv_ready_def recv_stderr_ready_def)
  have body: "loop_body example_externals ?w = exit_checks example_externals ?w"
    using s idle by (rule loop_body_after_relay)
  have "exit_checks example_externals ?w = Some (Inl StructError)"
    by (rule exit_checks_server_status_refused [OF s])
       (simp_all add: example_world_def open_channel_def)
  then have "forward_loop example_externals ?w = Some (Inl StructError)"
    using forward_loop_raise [OF r] body by simp
  then show ?thesis
    using ready status by blast
qed

text \<open>
  The same session with a server-side channel that has received exit status 0, and with
  exit status 3 on the client side only.
\<close>

lemma forward_exit_status_example:
  "forward_loop example_externals
     (example_world (open_channel\<lparr>chanid := 0, status_event := True, exit_status := 0\<rparr>)
        open_channel)
   = Some (Inr
       (example_world (open_channel\<lparr>chanid := 0, status_event := True, exit_status := 0\<rparr>)
          (open_channel\<lparr>closed := True, status_event := True,
             transport := \<lparr> sent_messages =
                 [[AddByte 98, AddInt 7, AddString ''exit-status'', AddBoolean False, AddInt 0],
                  [AddByte 96, AddInt 7],
                  [AddByte 98, AddInt 7, AddString ''eow@openssh.com'', AddBoolean False],
                  [AddByte 97, AddInt 7]],
               channels = {0} \<rparr>\<rparr>)))
   \<and> forward_loop example_externals
       (example_world (open_channel\<lparr>chanid := 0\<rparr>)
          (open_channel\<lparr>status_event := True, exit_status := 3\<rparr>))
     = Some (Inr
         (example_world (open_channel\<lparr>chanid := 0\<rparr>)
            (open_channel\<lparr>closed := True, status_event := True, exit_status := 3,
               transport := \<lparr> sent_messages =
                   [[AddByte 96, AddInt 7],
                    [AddByte 98, AddInt 7, AddString ''eow@openssh.com'', AddBoolean False],
                    [AddByte 97, AddInt 7]],
                 channels = {0} \<rparr>\<rparr>)))"
proof -
  let ?server = "open_channel\<lparr>chanid := 0, status_event := True, exit_status := 0\<rparr>"
  let ?w = "example_world ?server open_channel"
  let ?client = "open_channel\<lparr>status_event := True, exit_status := 3\<rparr>"
  let ?v = "example_world (open_channel\<lparr>chanid := 0\<rparr>) ?client"
  have sets: "{0, 1} - {1} = {0::int}" by auto
  have r: "running ?w" and s: "scp_channel ?w = Some open_channel"
    by (simp_all add: example_world_def)
  have idle: "relay example_externals ?w = Some (Inr ?w)"
    by (rule relay_idle [OF s])
       (simp_all add: example_world_def open_channel_def recv_ready_def recv_stderr_ready_def)
  have ev: "status_event (server_channel ?w)" "0 \<le> exit_status (server_channel ?w)"
    "exit_status (server_channel ?w) < 2 ^ 32"
    by (simp_all add: example_world_def)
  have final: "?w\<lparr>scp_channel := Some (close_session (base_close_session example_externals)
                    (send_user_message
                       (exit_status_message open_channel (exit_status (server_channel ?w)))
                       open_channel))\<rparr>
     = example_world ?server
          (open_channel\<lparr>closed := True, status_event := True,
             transport := \<lparr> sent_messages =
                 [[AddByte 98, AddInt 7, AddString ''exit-status'', AddBoolean False, AddInt 0],
                  [AddByte 96, AddInt 7],
                  [AddByte 98, AddInt 7, AddString ''eow@openssh.com'', AddBoolean False],
                  [AddByte 97, AddInt 7]],
               channels = {0} \<rparr>\<rparr>)"
    using sets
    by (simp add: example_world_def example_externals_def close_session_def Let_def
        send_user_message_def exit_status_message_def unlink_def
        open_channel_def example_transport_def close_message_def eow_message_def
        eof_message_def cMSG_CHANNEL_EOF_def cMSG_CHANNEL_CLOSE_def cMSG_CHANNEL_REQUEST_def)
  have first: "forward_loop example_externals ?w = Some (Inr
       (example_world ?server
          (open_channel\<lparr>closed := True, status_event := True,
             transport := \<lparr> sent_messages =
                 [[AddByte 98, AddInt 7, AddString ''exit-status'', AddBoolean False, AddInt 0],
                  [AddByte 96, AddInt 7],
                  [AddByte 98, AddInt 7, AddString ''eow@openssh.com'', AddBoolean False],
                  [AddByte 97, AddInt 7]],
               channels = {0} \<rparr>\<rparr>)))"
    using forward_exit_status [OF r s idle s] ev final by simp
  have r': "running ?v" and s': "scp_channel ?v = Some ?client"
    by (simp_all add: example_world_def)
  have idle': "relay example_externals ?v = Some (Inr ?v)"
    by (rule relay_idle [OF s'])
       (simp_all add: example_world_def open_channel_def recv_ready_def recv_stderr_ready_def)
  have ev': "\<not> exit_status_ready (server_channel ?v)" "status_event ?client"
    by (simp_all add: example_world_def exit_status_ready_def open_channel_def)
  have final': "?v\<lparr>scp_channel := Some (close_session (base_close_session example_externals)
                    ?client)\<rparr>
     = example_world (open_channel\<lparr>chanid := 0\<rparr>)
            (open_channel\<lparr>closed := True, status_event := True, exit_status := 3,
               transport := \<lparr> sent_messages =
                   [[AddByte 96, AddInt 7],
                    [AddByte 98, AddInt 7, AddString ''eow@openssh.com'', AddBoolean False],
                    [AddByte 97, AddInt 7]],
                 channels = {0} \<rparr>\<rparr>)"
    using sets
    by (simp add: example_world_def example_externals_def close_session_def Let_def
        send_user_message_def unlink_def
        open_channel_def example_transport_def close_message_def eow_message_def
        eof_message_def cMSG_CHANNEL_EOF_def cMSG_CHANNEL_CLOSE_def cMSG_CHANNEL_REQUEST_def)
  have second: "forward_loop example_externals ?v = Some (Inr
         (example_world (open_channel\<lparr>chanid := 0\<rparr>)
            (open_channel\<lparr>closed := True, status_event := True, exit_status := 3,
               transport := \<lparr> sent_messages =
                   [[AddByte 96, AddInt 7],
                    [AddByte 98, AddInt 7, AddString ''eow@openssh.com'', AddBoolean False],
                    [AddByte 97, AddInt 7]],
                 channels = {0} \<rparr>\<rparr>)))"
    using forward_exit_status [OF r' s' idle' s'] ev' final' by simp
  show ?thesis
    using first second by blast
qed

end
